theory Spec2Isabelle
  imports Complex_Main "HOL-Library.AList"
begin

section \<open>Python values, dictionaries and errors\<close>

text \<open>
  Python strings are lists of characters, one \<^typ>\<open>char\<close> per code point, which is exact
  for the ASCII text the patterns and keywords of this program are written in. A number
  is an \<open>int\<close> or a \<open>float\<close>; a finite \<open>float\<close> is the rational it denotes, \<open>Fin 0\<close>
  being \<open>0.0\<close>, and \<open>-0.0\<close>, the infinities (\<open>Inf True\<close> the positive one) and the
  not-a-number are values of their own. The arithmetic of
  Python on these values, with the rounding of \<open>float\<close>, is not computed by the model: the
  operations the handlers apply are parameters of the run-time environment below, and
  the properties hold whatever they return. A dictionary is an association list in
  insertion order; assigning to a key that is present replaces its value in place and a
  new key goes to the end, which is what \<^const>\<open>AList.update\<close> does.
\<close>

datatype number =
    Fin rat
  | NegZero
  | Inf bool
  | NaN

datatype val =
    VNone
  | VStr string
  | VInt int
  | VFloat number
  | VOid nat
  | VList "val list"
  | VDoc "(string \<times> val) list"

type_synonym doc = "(string \<times> val) list"

datatype error =
    ValueError string
  | AttributeError
  | TypeError
  | OverflowError
  | OtherError string

text \<open>Truth value of a Python object, as \<open>if x\<close> and \<open>not x\<close> test it.\<close>

fun truthy :: "val \<Rightarrow> bool" where
  "truthy VNone = False"
| "truthy (VStr s) = (s \<noteq> [])"
| "truthy (VInt i) = (i \<noteq> 0)"
| "truthy (VFloat x) = (x \<noteq> Fin 0 \<and> x \<noteq> NegZero)"
| "truthy (VOid n) = True"
| "truthy (VList xs) = (xs \<noteq> [])"
| "truthy (VDoc d) = (d \<noteq> [])"

text \<open>\<open>d.get(k, default)\<close> and \<open>d.get(k)\<close>, whose default is \<open>None\<close>.\<close>

definition get_or :: "doc \<Rightarrow> string \<Rightarrow> val \<Rightarrow> val" where
  "get_or d k dflt = (case map_of d k of None \<Rightarrow> dflt | Some v \<Rightarrow> v)"

definition get :: "doc \<Rightarrow> string \<Rightarrow> val" where
  "get d k = get_or d k VNone"

text \<open>\<open>a or b\<close> on values.\<close>

definition py_or :: "val \<Rightarrow> val \<Rightarrow> val" where
  "py_or a b = (if truthy a then a else b)"

subsection \<open>Characters and text\<close>

definition ascii_lower :: string where
  "ascii_lower = ''abcdefghijklmnopqrstuvwxyz''"

definition ascii_upper :: string where
  "ascii_upper = ''ABCDEFGHIJKLMNOPQRSTUVWXYZ''"

definition upper_char :: "char \<Rightarrow> char" where
  "upper_char c = (case map_of (zip ascii_lower ascii_upper) c of None \<Rightarrow> c | Some u \<Rightarrow> u)"

definition lower_char :: "char \<Rightarrow> char" where
  "lower_char c = (case map_of (zip ascii_upper ascii_lower) c of None \<Rightarrow> c | Some l \<Rightarrow> l)"

text \<open>\<open>s.upper()\<close> and \<open>s.lower()\<close>.\<close>

definition upper :: "string \<Rightarrow> string" where
  "upper s = map upper_char s"

definition lower :: "string \<Rightarrow> string" where
  "lower s = map lower_char s"

section \<open>Intent classifier\<close>

datatype Intent = CREATE | READ | UPDATE | DELETE | QUERY

datatype EntityType = TIMESHEET | INVOICE | EXPENSE | PROJECT | TALENT

text \<open>
  \<open>Intent(s)\<close> and \<open>EntityType(s)\<close> look an enumeration member up by its value and raise
  \<open>ValueError\<close> when there is none; \<open>None\<close> stands for that exception, which both callers
  catch.
\<close>

definition Intent_of :: "string \<Rightarrow> Intent option" where
  "Intent_of s =
     (if s = ''CREATE'' then Some CREATE
      else if s = ''READ'' then Some READ
      else if s = ''UPDATE'' then Some UPDATE
      else if s = ''DELETE'' then Some DELETE
      else if s = ''QUERY'' then Some QUERY
      else None)"

definition EntityType_of :: "string \<Rightarrow> EntityType option" where
  "EntityType_of s =
     (if s = ''TIMESHEET'' then Some TIMESHEET
      else if s = ''INVOICE'' then Some INVOICE
      else if s = ''EXPENSE'' then Some EXPENSE
      else if s = ''PROJECT'' then Some PROJECT
      else if s = ''TALENT'' then Some TALENT
      else None)"

text \<open>
  \<open>classify\<close>: the \<open>intent\<close> field, \<open>"QUERY"\<close> when the key is missing, is upper-cased; a
  value that is not a string has no \<open>upper\<close> method, and the \<open>AttributeError\<close> is not
  caught.
\<close>

definition classify :: "doc \<Rightarrow> error + Intent" where
  "classify parsed_query =
     (case get_or parsed_query ''intent'' (VStr ''QUERY'') of
        VStr s \<Rightarrow>
          (let intent_str = upper s in
           case Intent_of intent_str of
             Some i \<Rightarrow> Inr i
           | None \<Rightarrow> Inr QUERY)
      | _ \<Rightarrow> Inl AttributeError)"

definition get_entity_type :: "doc \<Rightarrow> error + EntityType option" where
  "get_entity_type parsed_query =
     (let entity_type_str = get parsed_query ''entity_type'' in
      if \<not> truthy entity_type_str then Inr None
      else case entity_type_str of
             VStr s \<Rightarrow>
               (case EntityType_of (upper s) of
                  Some t \<Rightarrow> Inr (Some t)
                | None \<Rightarrow> Inr None)
           | _ \<Rightarrow> Inl AttributeError)"

section \<open>Entity extractor: dates\<close>

subsection \<open>Formatting and reading decimal numbers\<close>

definition digit_chars :: string where
  "digit_chars = ''0123456789''"

text \<open>\<open>str(n)\<close> for a natural number.\<close>

fun str_nat :: "nat \<Rightarrow> string" where
  "str_nat n =
     (if n < 10 then [digit_chars ! n]
      else str_nat (n div 10) @ [digit_chars ! (n mod 10)])"

declare str_nat.simps [simp del]

text \<open>Zero padding on the left up to a width, as the format \<open>{n:02d}\<close> does.\<close>

definition zpad :: "nat \<Rightarrow> string \<Rightarrow> string" where
  "zpad w s = replicate (w - length s) CHR ''0'' @ s"

definition is_digit :: "char \<Rightarrow> bool" where
  "is_digit c = (c \<in> set digit_chars)"

definition digit_val :: "char \<Rightarrow> nat" where
  "digit_val c = (case map_of (zip digit_chars [0..<10]) c of None \<Rightarrow> 0 | Some d \<Rightarrow> d)"

text \<open>\<open>int(s)\<close> on a string of decimal digits.\<close>

definition int_of_digits :: "string \<Rightarrow> nat" where
  "int_of_digits s = foldl (\<lambda>acc c. 10 * acc + digit_val c) 0 s"

text \<open>
  The characters below code point 256 that \<open>\s\<close> matches in a pattern on \<open>str\<close>: space,
  tab, line feed, vertical tab, form feed, return, the four separators \<open>0x1C\<close> to
  \<open>0x1F\<close>, next line (\<open>0x85\<close>) and no-break space (\<open>0xA0\<close>).
\<close>

definition is_space :: "char \<Rightarrow> bool" where
  "is_space c =
     (c \<in> {CHR '' '', CHR 0x09, CHR 0x0A, CHR 0x0B, CHR 0x0C, CHR 0x0D,
            CHR 0x1C, CHR 0x1D, CHR 0x1E, CHR 0x1F, CHR 0x85, CHR 0xA0})"

text \<open>\<open>sub in s\<close> on strings.\<close>

fun contains :: "string \<Rightarrow> string \<Rightarrow> bool" where
  "contains sub [] = (sub = [])"
| "contains sub (c # cs) = (take (length sub) (c # cs) = sub \<or> contains sub cs)"

subsection \<open>Explicit dates\<close>

text \<open>
  \<open>DATE_PATTERN\<close> is \<open>\d{4}-\d{2}-\d{2}\<close>: a match is ten characters long. \<open>date_shape\<close>
  tells whether ten characters match it.
\<close>

definition date_shape :: "string \<Rightarrow> bool" where
  "date_shape m \<longleftrightarrow>
     length m = 10 \<and>
     list_all is_digit (take 4 m) \<and> m ! 4 = CHR ''-'' \<and>
     list_all is_digit (take 2 (drop 5 m)) \<and> m ! 7 = CHR ''-'' \<and>
     list_all is_digit (drop 8 m)"

text \<open>
  \<open>re.findall(DATE_PATTERN, text)\<close>: the matches from left to right, each search starting
  where the previous match ended.
\<close>

fun findall_date :: "string \<Rightarrow> string list" where
  "findall_date [] = []"
| "findall_date (c # cs) =
     (if date_shape (take 10 (c # cs))
      then take 10 (c # cs) # findall_date (drop 10 (c # cs))
      else findall_date cs)"

subsection \<open>Month names\<close>

text \<open>
  The twelve patterns of \<open>month_patterns\<close>, in the order of the dictionary. Each has the
  form \<open>name(?:rest)?\s+(\d{1,2})\<close> and is given by \<open>name\<close>, \<open>rest\<close> and the month number;
  \<open>may\<close> has no optional part.
\<close>

definition month_patterns :: "(string \<times> string \<times> nat) list" where
  "month_patterns =
     [(''jan'', ''uary'', 1), (''feb'', ''ruary'', 2), (''mar'', ''ch'', 3),
      (''apr'', ''il'', 4), (''may'', [], 5), (''jun'', ''e'', 6),
      (''jul'', ''y'', 7), (''aug'', ''ust'', 8), (''sep'', ''tember'', 9),
      (''oct'', ''ober'', 10), (''nov'', ''ember'', 11), (''dec'', ''ember'', 12)]"

text \<open>A literal of the pattern against the head of the text, ignoring case.\<close>

definition ci_prefix :: "string \<Rightarrow> string \<Rightarrow> bool" where
  "ci_prefix lit s \<longleftrightarrow> lower (take (length lit) s) = lit"

text \<open>
  \<open>\s+(\d{1,2})\<close> at the head of the text: the length matched and group 1. Both
  repetitions are greedy, and giving characters back cannot help, since a white-space
  character is no digit.
\<close>

definition match_day :: "string \<Rightarrow> (nat \<times> string) option" where
  "match_day s =
     (let ws = takeWhile is_space s;
          ds = takeWhile is_digit (take 2 (dropWhile is_space s))
      in if ws \<noteq> [] \<and> ds \<noteq> [] then Some (length ws + length ds, ds) else None)"

text \<open>
  One month pattern at the head of the text: the optional part is tried first and, when
  the rest of the pattern fails after it, left out.
\<close>

definition match_month_at :: "string \<Rightarrow> string \<Rightarrow> string \<Rightarrow> (nat \<times> string) option" where
  "match_month_at name rest s =
     (if \<not> ci_prefix name s then None
      else
        let s1 = drop (length name) s;
            long =
              (if ci_prefix rest s1
               then map_option (\<lambda>(n, g). (length name + length rest + n, g))
                      (match_day (drop (length rest) s1))
               else None)
        in case long of
             Some r \<Rightarrow> Some r
           | None \<Rightarrow> map_option (\<lambda>(n, g). (length name + n, g)) (match_day s1))"

lemma match_day_pos: "match_day s = Some (n, g) \<Longrightarrow> 0 < n"
  by (auto simp: match_day_def Let_def split: if_splits)

lemma match_month_at_pos: "match_month_at name rest s = Some (n, g) \<Longrightarrow> 0 < n"
  by (auto simp: match_month_at_def Let_def split: if_splits option.splits
           dest: match_day_pos)

text \<open>
  \<open>re.finditer(pattern, text, re.IGNORECASE)\<close>: for each match its start index and group 1.
  \<open>pos\<close> is the index of the head of the text that is left.
\<close>

function finditer_month :: "string \<Rightarrow> string \<Rightarrow> nat \<Rightarrow> string \<Rightarrow> (nat \<times> string) list" where
  "finditer_month name rest pos [] = []"
| "finditer_month name rest pos (c # cs) =
     (case match_month_at name rest (c # cs) of
        Some (n, g) \<Rightarrow> (pos, g) # finditer_month name rest (pos + n) (drop n (c # cs))
      | None \<Rightarrow> finditer_month name rest (pos + 1) cs)"
  by pat_completeness auto
termination
  by (relation "measure (\<lambda>(name, rest, pos, s). length s)")
     (auto dest: match_month_at_pos)

text \<open>
  The two nested loops of \<open>extract_dates\<close> visit the matches pattern by pattern; the list
  of what they visit: month number, start index, group 1.
\<close>

definition month_hits :: "string \<Rightarrow> (nat \<times> nat \<times> string) list" where
  "month_hits text =
     concat (map (\<lambda>(name, rest, month).
                    map (\<lambda>(start, g). (month, start, g)) (finditer_month name rest 0 text))
                 month_patterns)"

text \<open>The body of the inner loop.\<close>

definition assign_month_date ::
  "nat \<Rightarrow> string \<Rightarrow> (string \<times> string) list \<Rightarrow> nat \<times> nat \<times> string
   \<Rightarrow> (string \<times> string) list" where
  "assign_month_date current_year text dates hit =
     (case hit of (month, start, g) \<Rightarrow>
        let day = int_of_digits g;
            date_str = str_nat current_year @ ''-'' @ zpad 2 (str_nat month) @ ''-''
                       @ zpad 2 (str_nat day);
            preceding = take start (lower text)
        in if contains ''start'' preceding \<or> contains ''from'' preceding
           then AList.update ''start_date'' date_str dates
           else if contains ''end'' preceding \<or> contains ''to'' preceding
           then AList.update ''end_date'' date_str dates
           else if map_of dates ''start_date'' = None
           then AList.update ''start_date'' date_str dates
           else AList.update ''end_date'' date_str dates)"

text \<open>\<open>extract_dates\<close>; \<open>current_year\<close> is \<open>datetime.now().year\<close>.\<close>

definition extract_dates :: "nat \<Rightarrow> string \<Rightarrow> (string \<times> string) list" where
  "extract_dates current_year text =
     (let date_matches = findall_date text;
          dates = foldl (assign_month_date current_year text) [] (month_hits text)
      in if date_matches \<noteq> [] then
           (let dates1 = (if length date_matches \<ge> 1
                          then AList.update ''start_date'' (date_matches ! 0) dates
                          else dates)
            in if length date_matches \<ge> 2
               then AList.update ''end_date'' (date_matches ! 1) dates1
               else dates1)
         else dates)"

section \<open>Dates and the clock\<close>

text \<open>
  A \<open>datetime\<close> object, and the run-time environment of a call. The environment gives
  \<^item> the readings of \<open>datetime.now()\<close>, numbered in the order in which the call takes
    them;
  \<^item> the text \<open>str()\<close> makes of a value that is not a string;
  \<^item> the operators of Python the handlers apply to values of the documents: \<open>a * b\<close>,
    \<open>a / b\<close>, and \<open>x + b\<close> for a \<open>float\<close> \<open>x\<close>, the sum being a \<open>float\<close> again whenever
    there is one; each returns its result or the exception it raises;
  \<^item> the documents the driver of the store refuses, with the exception it raises for
    them (a filter, a document to insert or the fields of an update that it cannot
    encode, or that the server rejects).
  All of these are parameters: the properties proved below hold for every environment.
\<close>

record datetime =
  year :: nat
  month :: nat
  day :: nat
  hour :: nat
  minute :: nat
  second :: nat
  microsecond :: nat

record env =
  now :: "nat \<Rightarrow> datetime"
  str_other :: "val \<Rightarrow> string"
  py_mul :: "val \<Rightarrow> val \<Rightarrow> error + val"
  py_truediv :: "val \<Rightarrow> val \<Rightarrow> error + val"
  float_add :: "number \<Rightarrow> val \<Rightarrow> error + number"
  refuses :: "doc \<Rightarrow> error option"

definition py_str :: "env \<Rightarrow> val \<Rightarrow> string" where
  "py_str e v = (case v of VStr s \<Rightarrow> s | _ \<Rightarrow> str_other e v)"

definition is_leap :: "nat \<Rightarrow> bool" where
  "is_leap y \<longleftrightarrow> y mod 4 = 0 \<and> (y mod 100 \<noteq> 0 \<or> y mod 400 = 0)"

definition days_in_month :: "nat \<Rightarrow> nat \<Rightarrow> nat" where
  "days_in_month y m =
     (if m = 2 then (if is_leap y then 29 else 28)
      else if m \<in> {4, 6, 9, 11} then 30 else 31)"

definition MAXYEAR :: nat where
  "MAXYEAR = 9999"

definition valid_date :: "nat \<Rightarrow> nat \<Rightarrow> nat \<Rightarrow> bool" where
  "valid_date y m d \<longleftrightarrow>
     1 \<le> y \<and> y \<le> MAXYEAR \<and> 1 \<le> m \<and> m \<le> 12 \<and> 1 \<le> d \<and> d \<le> days_in_month y m"

text \<open>
  \<open>dt.strftime("%Y-%m-%d")\<close> and \<open>dt.strftime("%Y%m")\<close> print the year as the C library
  does, which under Linux does not pad a year below 1000; \<open>dt.isoformat()\<close> always
  writes the year with four digits.
\<close>

definition strftime_ymd :: "datetime \<Rightarrow> string" where
  "strftime_ymd dt =
     str_nat (year dt) @ ''-'' @ zpad 2 (str_nat (month dt)) @ ''-''
     @ zpad 2 (str_nat (day dt))"

definition strftime_Ym :: "datetime \<Rightarrow> string" where
  "strftime_Ym dt = str_nat (year dt) @ zpad 2 (str_nat (month dt))"

definition isoformat :: "datetime \<Rightarrow> string" where
  "isoformat dt =
     zpad 4 (str_nat (year dt)) @ ''-'' @ zpad 2 (str_nat (month dt)) @ ''-''
     @ zpad 2 (str_nat (day dt)) @ ''T'' @ zpad 2 (str_nat (hour dt)) @ '':''
     @ zpad 2 (str_nat (minute dt)) @ '':'' @ zpad 2 (str_nat (second dt))
     @ (if microsecond dt = 0 then [] else ''.'' @ zpad 6 (str_nat (microsecond dt)))"

text \<open>
  \<open>datetime.strptime(s, "%Y-%m-%d")\<close>. The directives stand for the patterns
  \<open>\d\d\d\d\<close>, \<open>1[0-2]|0[1-9]|[1-9]\<close> and \<open>3[01]|[12]\d|0[1-9]|[1-9]| [1-9]\<close>; an
  alternative is a length and a test on that many characters. The text has to match from
  its start, nothing may be left over, and the fields have to be a date of the calendar.
  The messages are those of the library for a text without quotes or control characters,
  which it would escape.
\<close>

definition month_alts :: "(nat \<times> (string \<Rightarrow> bool)) list" where
  "month_alts =
     [(2, \<lambda>m. m ! 0 = CHR ''1'' \<and> m ! 1 \<in> set ''012''),
      (2, \<lambda>m. m ! 0 = CHR ''0'' \<and> m ! 1 \<in> set ''123456789''),
      (1, \<lambda>m. m ! 0 \<in> set ''123456789'')]"

definition day_alts :: "(nat \<times> (string \<Rightarrow> bool)) list" where
  "day_alts =
     [(2, \<lambda>d. d ! 0 = CHR ''3'' \<and> d ! 1 \<in> set ''01''),
      (2, \<lambda>d. d ! 0 \<in> set ''12'' \<and> is_digit (d ! 1)),
      (2, \<lambda>d. d ! 0 = CHR ''0'' \<and> d ! 1 \<in> set ''123456789''),
      (1, \<lambda>d. d ! 0 \<in> set ''123456789''),
      (2, \<lambda>d. d ! 0 = CHR '' '' \<and> d ! 1 \<in> set ''123456789'')]"

definition alt_matches :: "nat \<times> (string \<Rightarrow> bool) \<Rightarrow> string \<Rightarrow> bool" where
  "alt_matches a s \<longleftrightarrow> fst a \<le> length s \<and> snd a (take (fst a) s)"

definition no_match :: "string \<Rightarrow> error" where
  "no_match s =
     ValueError (''time data '' @ [CHR 0x27] @ s @ [CHR 0x27] @ '' does not match format ''
                 @ [CHR 0x27] @ ''%Y-%m-%d'' @ [CHR 0x27])"

definition strptime_text :: "string \<Rightarrow> error + datetime" where
  "strptime_text s =
     (let y = take 4 s; s1 = drop 4 s in
      if \<not> (length y = 4 \<and> list_all is_digit y \<and> take 1 s1 = ''-'') then Inl (no_match s)
      else
        let s2 = drop 1 s1 in
        case filter (\<lambda>a. alt_matches a s2 \<and> take 1 (drop (fst a) s2) = ''-'') month_alts of
          [] \<Rightarrow> Inl (no_match s)
        | a # _ \<Rightarrow>
            let m = take (fst a) s2; s3 = drop (fst a + 1) s2 in
            (case filter (\<lambda>b. alt_matches b s3) day_alts of
               [] \<Rightarrow> Inl (no_match s)
             | b # _ \<Rightarrow>
                 if length s3 \<noteq> fst b
                 then Inl (ValueError (''unconverted data remains: '' @ drop (fst b) s3))
                 else if int_of_digits y = 0
                 then Inl (ValueError ''year 0 is out of range'')
                 else if \<not> valid_date (int_of_digits y) (int_of_digits m) (int_of_digits s3)
                 then Inl (ValueError ''day is out of range for month'')
                 else Inr \<lparr>year = int_of_digits y, month = int_of_digits m,
                           day = int_of_digits s3, hour = 0, minute = 0, second = 0,
                           microsecond = 0\<rparr>))"

text \<open>The first argument of \<open>strptime\<close> has to be a string.\<close>

definition strptime :: "val \<Rightarrow> error + datetime" where
  "strptime v = (case v of VStr s \<Rightarrow> strptime_text s | _ \<Rightarrow> Inl TypeError)"

text \<open>
  \<open>a <= b\<close> on \<open>datetime\<close> objects compares the fields in order, from the year down to
  the microsecond.
\<close>

fun lex_le :: "nat list \<Rightarrow> nat list \<Rightarrow> bool" where
  "lex_le [] ys = True"
| "lex_le (x # xs) [] = False"
| "lex_le (x # xs) (y # ys) = (x < y \<or> (x = y \<and> lex_le xs ys))"

definition dt_fields :: "datetime \<Rightarrow> nat list" where
  "dt_fields dt = [year dt, month dt, day dt, hour dt, minute dt, second dt, microsecond dt]"

definition dt_le :: "datetime \<Rightarrow> datetime \<Rightarrow> bool" where
  "dt_le a b = lex_le (dt_fields a) (dt_fields b)"

text \<open>
  \<open>dt + timedelta(days=1)\<close>: the next day of the month, or the first day of the next month
  or year; a year after \<open>MAXYEAR\<close> raises \<open>OverflowError\<close>. Adding \<open>n\<close> days is \<open>n\<close> such
  steps.
\<close>

definition add_one_day :: "datetime \<Rightarrow> error + datetime" where
  "add_one_day dt =
     (if day dt + 1 \<le> days_in_month (year dt) (month dt) then Inr (dt\<lparr>day := day dt + 1\<rparr>)
      else if month dt + 1 \<le> 12 then Inr (dt\<lparr>month := month dt + 1, day := 1\<rparr>)
      else if year dt + 1 \<le> MAXYEAR then Inr (dt\<lparr>year := year dt + 1, month := 1, day := 1\<rparr>)
      else Inl OverflowError)"

fun add_days :: "datetime \<Rightarrow> nat \<Rightarrow> error + datetime" where
  "add_days dt 0 = Inr dt"
| "add_days dt (Suc n) = (case add_one_day dt of Inl e \<Rightarrow> Inl e | Inr dt' \<Rightarrow> add_days dt' n)"
section \<open>The document store\<close>

text \<open>
  The store is the external collaborator behind \<open>get_collection\<close>: named collections of
  documents with the operations \<open>find_one\<close>, \<open>insert_one\<close> and \<open>update_one\<close>. A filter is a
  dictionary of field values, and a document matches when each field has that value, a
  missing field counting as \<open>None\<close> and numbers being compared by their value, whatever
  their type. \<open>update_one\<close> sets fields of the first matching document and reports as
  \<open>modified_count\<close> whether that changed the document: the count is zero when no
  document matches and when the matching document already holds the values. \<open>insert_one\<close>
  gives a document without \<open>_id\<close> a fresh \<open>ObjectId\<close>. An operation whose filter, document
  or update the driver refuses raises the exception of the driver and does not reach the
  store. Every operation that reaches it is recorded in the log of the store, so that a
  run that leaves the store as it was has neither read nor written.
\<close>

datatype coll =
    TIMESHEETS
  | INVOICES
  | EXPENSES
  | PROJECTS
  | TALENTS
  | TALENT_INVOICE
  | BILLING_INFO
  | OZ_MASTER_DATA

datatype event =
    FindOne coll doc
  | InsertOne coll doc
  | UpdateOne coll doc doc

record store =
  colls :: "coll \<Rightarrow> doc list"
  next_oid :: nat
  log :: "event list"

text \<open>
  \<open>by_value\<close> writes every number of a value as the \<open>float\<close> of that value, so that two
  values are equal for the store when their images are.
\<close>

primrec by_value :: "val \<Rightarrow> val" where
  "by_value VNone = VNone"
| "by_value (VStr s) = VStr s"
| "by_value (VInt i) = VFloat (Fin (of_int i))"
| "by_value (VFloat x) = VFloat (if x = NegZero then Fin 0 else x)"
| "by_value (VOid n) = VOid n"
| "by_value (VList xs) = VList (map by_value xs)"
| "by_value (VDoc d) = VDoc (map (map_prod id by_value) d)"

definition matches :: "doc \<Rightarrow> doc \<Rightarrow> bool" where
  "matches flt d \<longleftrightarrow> list_all (\<lambda>(k, v). by_value (get d k) = by_value v) flt"

definition find_one :: "env \<Rightarrow> store \<Rightarrow> coll \<Rightarrow> doc \<Rightarrow> (error + doc option) \<times> store" where
  "find_one e st c flt =
     (case refuses e flt of
        Some err \<Rightarrow> (Inl err, st)
      | None \<Rightarrow>
          (Inr (find (matches flt) (colls st c)), st\<lparr>log := log st @ [FindOne c flt]\<rparr>))"

definition insert_one ::
  "env \<Rightarrow> store \<Rightarrow> coll \<Rightarrow> doc \<Rightarrow> (error + val \<times> doc) \<times> store" where
  "insert_one e st c d =
     (let d' = (if map_of d ''_id'' = None then d @ [(''_id'', VOid (next_oid st))] else d)
      in case refuses e d' of
           Some err \<Rightarrow> (Inl err, st)
         | None \<Rightarrow>
             (Inr (get d' ''_id'', d'),
              st\<lparr>colls := (colls st)(c := colls st c @ [d']),
                 next_oid := Suc (next_oid st),
                 log := log st @ [InsertOne c d']\<rparr>))"

definition apply_set :: "doc \<Rightarrow> doc \<Rightarrow> doc" where
  "apply_set sets d = foldl (\<lambda>acc (k, v). AList.update k v acc) d sets"

fun update_first :: "(doc \<Rightarrow> bool) \<Rightarrow> (doc \<Rightarrow> doc) \<Rightarrow> doc list \<Rightarrow> doc list" where
  "update_first P f [] = []"
| "update_first P f (d # ds) = (if P d then f d # ds else d # update_first P f ds)"

text \<open>The command \<open>update_one(flt, {"$set": sets})\<close> sends, which the driver has to accept.\<close>

definition update_command :: "doc \<Rightarrow> doc \<Rightarrow> doc" where
  "update_command flt sets = [(''q'', VDoc flt), (''u'', VDoc [(''$set'', VDoc sets)])]"

definition update_one ::
  "env \<Rightarrow> store \<Rightarrow> coll \<Rightarrow> doc \<Rightarrow> doc \<Rightarrow> (error + nat) \<times> store" where
  "update_one e st c flt sets =
     (case refuses e (update_command flt sets) of
        Some err \<Rightarrow> (Inl err, st)
      | None \<Rightarrow>
          (let modified_count =
                 (case find (matches flt) (colls st c) of
                    None \<Rightarrow> 0
                  | Some d \<Rightarrow> if apply_set sets d = d then 0 else 1)
           in (Inr modified_count,
               st\<lparr>colls := (colls st)(c := update_first (matches flt) (apply_set sets)
                                            (colls st c)),
                  log := log st @ [UpdateOne c flt sets]\<rparr>)))"

text \<open>The text of an \<open>ObjectId\<close>, written here as its number on 24 digits.\<close>

definition oid_str :: "nat \<Rightarrow> string" where
  "oid_str n = zpad 24 (str_nat n)"

definition str_id :: "env \<Rightarrow> val \<Rightarrow> val" where
  "str_id e v = (case v of VOid n \<Rightarrow> VStr (oid_str n) | _ \<Rightarrow> VStr (py_str e v))"

text \<open>
  What every getter does with the document it has found: \<open>if doc and "_id" in doc\<close>, the
  \<open>_id\<close> is replaced by its text.
\<close>

definition stringify_id :: "env \<Rightarrow> doc option \<Rightarrow> doc option" where
  "stringify_id e found =
     (case found of
        None \<Rightarrow> None
      | Some d \<Rightarrow>
          if d \<noteq> [] \<and> map_of d ''_id'' \<noteq> None
          then Some (AList.update ''_id'' (str_id e (get d ''_id'')) d)
          else Some d)"

text \<open>
  The test \<open>if not x\<close> on the result of a getter, which is \<open>None\<close> or a dictionary:
  \<open>None\<close> and the empty dictionary are false, and \<open>truthy_doc\<close> gives the dictionary
  otherwise.
\<close>

definition truthy_doc :: "doc option \<Rightarrow> doc option" where
  "truthy_doc found = (case found of None \<Rightarrow> None | Some d \<Rightarrow> if d = [] then None else Some d)"

definition val_of_doc :: "doc option \<Rightarrow> val" where
  "val_of_doc found = (case found of None \<Rightarrow> VNone | Some d \<Rightarrow> VDoc d)"

section \<open>Timesheet handler\<close>

definition get_timesheet :: "env \<Rightarrow> store \<Rightarrow> val \<Rightarrow> (error + doc option) \<times> store" where
  "get_timesheet e st timesheet_id =
     (case find_one e st TIMESHEETS [(''timesheet_id'', timesheet_id)] of
        (Inl err, st1) \<Rightarrow> (Inl err, st1)
      | (Inr timesheet, st1) \<Rightarrow> (Inr (stringify_id e timesheet), st1))"

text \<open>
  The loop of \<open>create_timesheet\<close> and \<open>update_timesheet_dates\<close> that makes one entry for
  each day. \<open>total_hours\<close> starts as \<open>0.0\<close>, and each round adds \<open>hours_per_day\<close> to it
  before it moves to the next day.
\<close>

lemma dt_le_year: "dt_le a b \<Longrightarrow> year a \<le> year b"
  by (auto simp: dt_le_def dt_fields_def)

function generate_entries ::
  "env \<Rightarrow> datetime \<Rightarrow> datetime \<Rightarrow> val \<Rightarrow> val list \<Rightarrow> number
   \<Rightarrow> error + (val list \<times> number)" where
  "generate_entries e current_date end_date hours_per_day entries total_hours =
     (if dt_le current_date end_date then
        (let entry = VDoc [(''date'', VStr (strftime_ymd current_date)),
                           (''hours'', hours_per_day),
                           (''description'', VNone)]
         in case float_add e total_hours hours_per_day of
              Inl err \<Rightarrow> Inl err
            | Inr total_hours1 \<Rightarrow>
                (case add_one_day current_date of
                   Inl err \<Rightarrow> Inl err
                 | Inr next_date \<Rightarrow>
                     generate_entries e next_date end_date hours_per_day (entries @ [entry])
                       total_hours1))
      else Inr (entries, total_hours))"
  by pat_completeness auto
termination
proof (relation "measure (\<lambda>(e, c, en, h, es, t).
         (year en + 1 - year c) * 1000 + (12 - month c) * 32 + (31 - day c))", goal_cases)
  case 1
  show ?case by simp
next
  case (2 e c en h es t entry t1 nxt)
  from \<open>dt_le c en\<close> have y: "year c \<le> year en" by (rule dt_le_year)
  have dim: "days_in_month (year c) (month c) \<le> 31"
    by (simp add: days_in_month_def)
  from \<open>add_one_day c = Inr nxt\<close> y dim show ?case
    by (auto simp: add_one_day_def split: if_splits)
qed

definition create_timesheet ::
  "env \<Rightarrow> store \<Rightarrow> val \<Rightarrow> val \<Rightarrow> val \<Rightarrow> val \<Rightarrow> val \<Rightarrow> (error + doc) \<times> store" where
  "create_timesheet e st project_id talent_id start_date end_date hours_per_day =
     (let timesheet_id =
            ''TS-'' @ strftime_Ym (now e 0) @ ''-'' @ str_nat (microsecond (now e 0) mod 1000)
      in case strptime start_date of
           Inl err \<Rightarrow> (Inl err, st)
         | Inr start \<Rightarrow>
             (case strptime end_date of
                Inl err \<Rightarrow> (Inl err, st)
              | Inr end \<Rightarrow>
                  (case generate_entries e start end hours_per_day [] (Fin 0) of
                     Inl err \<Rightarrow> (Inl err, st)
                   | Inr (entries, total_hours) \<Rightarrow>
                       (let timesheet =
                              [(''timesheet_id'', VStr timesheet_id),
                               (''project_id'', project_id),
                               (''user_id'', talent_id),
                               (''start_date'', start_date),
                               (''end_date'', end_date),
                               (''status'', VStr ''draft''),
                               (''entries'', VList entries),
                               (''total_hours'', VFloat total_hours),
                               (''created_at'', VStr (isoformat (now e 1))),
                               (''updated_at'', VStr (isoformat (now e 2)))]
                        in case insert_one e st TIMESHEETS timesheet of
                             (Inl err, st1) \<Rightarrow> (Inl err, st1)
                           | (Inr (inserted_id, timesheet1), st1) \<Rightarrow>
                               (Inr (AList.update ''_id'' (str_id e inserted_id) timesheet1),
                                st1)))))"

definition update_timesheet_dates ::
  "env \<Rightarrow> store \<Rightarrow> val \<Rightarrow> val \<Rightarrow> val \<Rightarrow> val \<Rightarrow> (error + doc option) \<times> store" where
  "update_timesheet_dates e st timesheet_id start_date end_date hours_per_day =
     (case get_timesheet e st timesheet_id of
        (Inl err, st1) \<Rightarrow> (Inl err, st1)
      | (Inr timesheet, st1) \<Rightarrow>
        case truthy_doc timesheet of
          None \<Rightarrow>
            (Inl (ValueError (''Timesheet '' @ py_str e timesheet_id @ '' not found'')), st1)
        | Some _ \<Rightarrow>
          case strptime start_date of
            Inl err \<Rightarrow> (Inl err, st1)
          | Inr start \<Rightarrow>
              (case strptime end_date of
                 Inl err \<Rightarrow> (Inl err, st1)
               | Inr end \<Rightarrow>
                   (case generate_entries e start end hours_per_day [] (Fin 0) of
                      Inl err \<Rightarrow> (Inl err, st1)
                    | Inr (entries, total_hours) \<Rightarrow>
                        (let update_data =
                               [(''start_date'', start_date),
                                (''end_date'', end_date),
                                (''entries'', VList entries),
                                (''total_hours'', VFloat total_hours),
                                (''updated_at'', VStr (isoformat (now e 0)))]
                         in case update_one e st1 TIMESHEETS [(''timesheet_id'', timesheet_id)]
                                   update_data of
                              (Inl err, st2) \<Rightarrow> (Inl err, st2)
                            | (Inr modified_count, st2) \<Rightarrow>
                                if modified_count = 0
                                then (Inl (ValueError (''Failed to update timesheet ''
                                                       @ py_str e timesheet_id)), st2)
                                else get_timesheet e st2 timesheet_id))))"

definition update_timesheet_status ::
  "env \<Rightarrow> store \<Rightarrow> val \<Rightarrow> val \<Rightarrow> (error + doc option) \<times> store" where
  "update_timesheet_status e st timesheet_id status =
     (let valid_statuses = [VStr ''draft'', VStr ''submitted'', VStr ''approved'', VStr ''rejected'']
      in if status \<notin> set valid_statuses
         then (Inl (ValueError (''Invalid status: '' @ py_str e status)), st)
         else
           (case update_one e st TIMESHEETS [(''timesheet_id'', timesheet_id)]
                   [(''status'', status), (''updated_at'', VStr (isoformat (now e 0)))] of
              (Inl err, st1) \<Rightarrow> (Inl err, st1)
            | (Inr modified_count, st1) \<Rightarrow>
                if modified_count = 0
                then (Inl (ValueError (''Timesheet '' @ py_str e timesheet_id @ '' not found'')),
                      st1)
                else get_timesheet e st1 timesheet_id))"

section \<open>Expense and invoice handlers\<close>

definition get_expense :: "env \<Rightarrow> store \<Rightarrow> val \<Rightarrow> (error + doc option) \<times> store" where
  "get_expense e st expense_id =
     (case find_one e st EXPENSES [(''expense_id'', expense_id)] of
        (Inl err, st1) \<Rightarrow> (Inl err, st1)
      | (Inr expense, st1) \<Rightarrow> (Inr (stringify_id e expense), st1))"

definition get_invoice :: "env \<Rightarrow> store \<Rightarrow> val \<Rightarrow> (error + doc option) \<times> store" where
  "get_invoice e st invoice_number =
     (case find_one e st INVOICES [(''invoice_number'', invoice_number)] of
        (Inl err, st1) \<Rightarrow> (Inl err, st1)
      | (Inr invoice, st1) \<Rightarrow> (Inr (stringify_id e invoice), st1))"

text \<open>
  The \<open>if\<close>/\<open>elif\<close> chain on \<open>rate_type\<close>. \<open>invoice_amount\<close> starts as \<open>0.0\<close>; the divisors
  are the floats \<open>8.0\<close>, \<open>8.0 * 5\<close> and \<open>8.0 * 20\<close>, products that are exact; each branch
  divides first and multiplies the quotient by \<open>rate_value\<close>.
\<close>

definition calculate_invoice_amount :: "env \<Rightarrow> val \<Rightarrow> val \<Rightarrow> val \<Rightarrow> error + val" where
  "calculate_invoice_amount e rate_type total_hours rate_value =
     (if rate_type = VStr ''Hourly'' then py_mul e total_hours rate_value
      else if rate_type = VStr ''Daily'' then
        (case py_truediv e total_hours (VFloat (Fin 8)) of
           Inl err \<Rightarrow> Inl err
         | Inr days \<Rightarrow> py_mul e days rate_value)
      else if rate_type = VStr ''Weekly'' then
        (case py_truediv e total_hours (VFloat (Fin (8 * 5))) of
           Inl err \<Rightarrow> Inl err
         | Inr weeks \<Rightarrow> py_mul e weeks rate_value)
      else if rate_type = VStr ''Monthly'' then
        (case py_truediv e total_hours (VFloat (Fin (8 * 20))) of
           Inl err \<Rightarrow> Inl err
         | Inr months \<Rightarrow> py_mul e months rate_value)
      else Inr (VFloat (Fin 0)))"

definition invoice_number_of :: "datetime \<Rightarrow> string" where
  "invoice_number_of n = ''INV-'' @ strftime_Ym n @ ''-'' @ str_nat (microsecond n mod 1000)"

definition create_timesheet_invoice :: "env \<Rightarrow> store \<Rightarrow> val \<Rightarrow> (error + doc) \<times> store" where
  "create_timesheet_invoice e st timesheet_id =
     (case get_timesheet e st timesheet_id of
        (Inl err, st1) \<Rightarrow> (Inl err, st1)
      | (Inr timesheet, st1) \<Rightarrow>
        case truthy_doc timesheet of
          None \<Rightarrow>
            (Inl (ValueError (''Timesheet '' @ py_str e timesheet_id @ '' not found'')), st1)
        | Some ts \<Rightarrow>
          (let project_id = get ts ''project_id'';
               talent_id = get ts ''user_id''
           in case find_one e st1 TALENT_INVOICE
                     [(''project_id'', project_id), (''talent_id'', talent_id)] of
                (Inl err, st2) \<Rightarrow> (Inl err, st2)
              | (Inr talent_invoice, st2) \<Rightarrow>
                case truthy_doc talent_invoice of
                  None \<Rightarrow>
                    (Inl (ValueError (''Talent invoice settings not found for project ''
                                      @ py_str e project_id @ '' and talent ''
                                      @ py_str e talent_id)), st2)
                | Some ti \<Rightarrow>
                  (let rate_type = get_or ti ''talentInvoiceRateType'' (VStr ''Hourly'');
                       rate_value = get_or ti ''talentInvoiceRateValue'' (VInt 0);
                       currency = get_or ti ''talentInvoicingCurrency'' (VStr ''USD'');
                       total_hours = get_or ts ''total_hours'' (VInt 0)
                   in case calculate_invoice_amount e rate_type total_hours rate_value of
                        Inl err \<Rightarrow> (Inl err, st2)
                      | Inr invoice_amount \<Rightarrow>
                          (let invoice_number = invoice_number_of (now e 0);
                               items =
                                 [VDoc [(''description'',
                                           VStr (''Timesheet '' @ py_str e timesheet_id @ '' - ''
                                                 @ py_str e total_hours @ '' hours'')),
                                        (''quantity'', total_hours),
                                        (''rate'', rate_value),
                                        (''amount'', invoice_amount),
                                        (''rate_type'', rate_type)]]
                           in case find_one e st2 BILLING_INFO [(''project_id'', project_id)] of
                                (Inl err, st3) \<Rightarrow> (Inl err, st3)
                              | (Inr billing_info, st3) \<Rightarrow>
                                  (let due_days = 30;
                                       issue_date = strftime_ymd (now e 1)
                                   in case add_days (now e 2) due_days of
                                        Inl err \<Rightarrow> (Inl err, st3)
                                      | Inr due \<Rightarrow>
                                          (let invoice =
                                                 [(''invoice_number'', VStr invoice_number),
                                                  (''project_id'', project_id),
                                                  (''talent_id'', talent_id),
                                                  (''timesheet_id'', timesheet_id),
                                                  (''status'', VStr ''draft''),
                                                  (''items'', VList items),
                                                  (''currency'', currency),
                                                  (''issue_date'', VStr issue_date),
                                                  (''due_date'', VStr (strftime_ymd due)),
                                                  (''created_at'', VStr (isoformat (now e 3))),
                                                  (''updated_at'', VStr (isoformat (now e 4)))]
                                           in case insert_one e st3 INVOICES invoice of
                                                (Inl err, st4) \<Rightarrow> (Inl err, st4)
                                              | (Inr (inserted_id, invoice1), st4) \<Rightarrow>
                                                  (Inr (AList.update ''_id''
                                                          (str_id e inserted_id) invoice1),
                                                   st4)))))))"

text \<open>
  The items of an expense invoice. Iterating over \<open>expense.get("items", [])\<close> gives the
  elements of a list, the characters of a string and the keys of a dictionary, and raises
  \<open>TypeError\<close> for another value; \<open>item.get\<close> needs a dictionary.
\<close>

definition py_iter :: "val \<Rightarrow> error + val list" where
  "py_iter v =
     (case v of
        VList xs \<Rightarrow> Inr xs
      | VStr s \<Rightarrow> Inr (map (\<lambda>c. VStr [c]) s)
      | VDoc d \<Rightarrow> Inr (map (\<lambda>kv. VStr (fst kv)) d)
      | _ \<Rightarrow> Inl TypeError)"

fun expense_invoice_items :: "val list \<Rightarrow> val list \<Rightarrow> error + val list" where
  "expense_invoice_items [] items = Inr items"
| "expense_invoice_items (item # rest) items =
     (case item of
        VDoc i \<Rightarrow>
          expense_invoice_items rest
            (items @ [VDoc [(''description'', get_or i ''description'' (VStr ''Expense item'')),
                            (''quantity'', get_or i ''quantity'' (VInt 1)),
                            (''rate'', get_or i ''amount'' (VInt 0)),
                            (''amount'', get_or i ''amount'' (VInt 0))]])
      | _ \<Rightarrow> Inl AttributeError)"

definition create_expense_invoice ::
  "env \<Rightarrow> store \<Rightarrow> val \<Rightarrow> val \<Rightarrow> (error + doc) \<times> store" where
  "create_expense_invoice e st expense_id talent_id =
     (case get_expense e st expense_id of
        (Inl err, st1) \<Rightarrow> (Inl err, st1)
      | (Inr expense, st1) \<Rightarrow>
        case truthy_doc expense of
          None \<Rightarrow> (Inl (ValueError (''Expense '' @ py_str e expense_id @ '' not found'')), st1)
        | Some ex \<Rightarrow>
          (let project_id = get ex ''project_id'';
               total_amount = get_or ex ''total_amount'' (VInt 0);
               currency = get_or ex ''currency'' (VStr ''USD'');
               invoice_number = invoice_number_of (now e 0)
           in case py_iter (get_or ex ''items'' (VList [])) of
                Inl err \<Rightarrow> (Inl err, st1)
              | Inr expense_items \<Rightarrow>
                  (case expense_invoice_items expense_items [] of
                     Inl err \<Rightarrow> (Inl err, st1)
                   | Inr items0 \<Rightarrow>
                       (let items =
                              (if items0 = []
                               then [VDoc [(''description'',
                                              VStr (''Expense '' @ py_str e expense_id)),
                                           (''quantity'', VInt 1),
                                           (''rate'', total_amount),
                                           (''amount'', total_amount)]]
                               else items0);
                            issue_date = strftime_ymd (now e 1)
                        in case add_days (now e 2) 30 of
                             Inl err \<Rightarrow> (Inl err, st1)
                           | Inr due \<Rightarrow>
                               (let invoice =
                                      [(''invoice_number'', VStr invoice_number),
                                       (''project_id'', project_id),
                                       (''talent_id'', talent_id),
                                       (''expense_id'', expense_id),
                                       (''status'', VStr ''draft''),
                                       (''items'', VList items),
                                       (''currency'', currency),
                                       (''issue_date'', VStr issue_date),
                                       (''due_date'', VStr (strftime_ymd due)),
                                       (''created_at'', VStr (isoformat (now e 3))),
                                       (''updated_at'', VStr (isoformat (now e 4)))]
                                in case insert_one e st1 INVOICES invoice of
                                     (Inl err, st2) \<Rightarrow> (Inl err, st2)
                                   | (Inr (inserted_id, invoice1), st2) \<Rightarrow>
                                       (Inr (AList.update ''_id'' (str_id e inserted_id)
                                               invoice1), st2))))))"

definition update_invoice_status ::
  "env \<Rightarrow> store \<Rightarrow> val \<Rightarrow> val \<Rightarrow> (error + doc option) \<times> store" where
  "update_invoice_status e st invoice_number status =
     (let valid_statuses = [VStr ''draft'', VStr ''sent'', VStr ''paid'', VStr ''cancelled'']
      in if status \<notin> set valid_statuses
         then (Inl (ValueError (''Invalid status: '' @ py_str e status)), st)
         else
           (case update_one e st INVOICES [(''invoice_number'', invoice_number)]
                   [(''status'', status), (''updated_at'', VStr (isoformat (now e 0)))] of
              (Inl err, st1) \<Rightarrow> (Inl err, st1)
            | (Inr modified_count, st1) \<Rightarrow>
                if modified_count = 0
                then (Inl (ValueError (''Invoice '' @ py_str e invoice_number @ '' not found'')),
                      st1)
                else get_invoice e st1 invoice_number))"

section \<open>Orchestrator\<close>

text \<open>
  The methods \<open>_create_invoice\<close> and \<open>_update_timesheet\<close> of the orchestrator, to which
  \<open>_execute_operation\<close> hands the entity mapping of a \<open>CREATE\<close>/\<open>INVOICE\<close> and of an
  \<open>UPDATE\<close>/\<open>TIMESHEET\<close> request. Each reads the mapping, checks the fields it needs
  and calls one handler; the result is the dictionary with \<open>operation\<close>, \<open>data\<close> and
  \<open>message\<close>.
\<close>

definition create_invoice :: "env \<Rightarrow> store \<Rightarrow> doc \<Rightarrow> (error + doc) \<times> store" where
  "create_invoice e st entities =
     (let timesheet_id = get entities ''timesheet_id'';
          expense_id = get entities ''expense_id'';
          talent_id = py_or (get entities ''talent_id'') (get entities ''user_id'')
      in if truthy timesheet_id then
           (case create_timesheet_invoice e st timesheet_id of
              (Inl err, st1) \<Rightarrow> (Inl err, st1)
            | (Inr invoice, st1) \<Rightarrow>
                (Inr [(''operation'', VStr ''create_timesheet_invoice''),
                      (''data'', VDoc invoice),
                      (''message'',
                         VStr (''Created invoice '' @ py_str e (get invoice ''invoice_number'')
                               @ '' from timesheet '' @ py_str e timesheet_id))], st1))
         else if truthy expense_id then
           (if \<not> truthy talent_id
            then (Inl (ValueError ''talent_id required for expense invoice''), st)
            else
              (case create_expense_invoice e st expense_id talent_id of
                 (Inl err, st1) \<Rightarrow> (Inl err, st1)
               | (Inr invoice, st1) \<Rightarrow>
                   (Inr [(''operation'', VStr ''create_expense_invoice''),
                         (''data'', VDoc invoice),
                         (''message'',
                            VStr (''Created invoice '' @ py_str e (get invoice ''invoice_number'')
                                  @ '' from expense '' @ py_str e expense_id))], st1)))
         else (Inl (ValueError ''Either timesheet_id or expense_id required''), st))"

definition update_timesheet :: "env \<Rightarrow> store \<Rightarrow> doc \<Rightarrow> (error + doc) \<times> store" where
  "update_timesheet e st entities =
     (let timesheet_id = get entities ''timesheet_id''
      in if \<not> truthy timesheet_id then (Inl (ValueError ''timesheet_id required''), st)
         else
           (let start_date = get entities ''start_date'';
                end_date = get entities ''end_date'';
                status = get entities ''status'';
                hours = get entities ''hours''
            in if truthy status then
                 (case update_timesheet_status e st timesheet_id status of
                    (Inl err, st1) \<Rightarrow> (Inl err, st1)
                  | (Inr timesheet, st1) \<Rightarrow>
                      (Inr [(''operation'', VStr ''update_timesheet_status''),
                            (''data'', val_of_doc timesheet),
                            (''message'',
                               VStr (''Updated timesheet '' @ py_str e timesheet_id
                                     @ '' status to '' @ py_str e status))], st1))
               else if truthy start_date \<and> truthy end_date then
                 (let hours_per_day = (if truthy hours then hours else VFloat (Fin 8))
                  in case update_timesheet_dates e st timesheet_id start_date end_date
                            hours_per_day of
                       (Inl err, st1) \<Rightarrow> (Inl err, st1)
                     | (Inr timesheet, st1) \<Rightarrow>
                         (Inr [(''operation'', VStr ''update_timesheet_dates''),
                               (''data'', val_of_doc timesheet),
                               (''message'',
                                  VStr (''Updated timesheet '' @ py_str e timesheet_id
                                        @ '' date range''))], st1))
               else (Inl (ValueError
                            ''Either status or start_date/end_date required for update''), st)))"

section \<open>Auxiliary definitions for the statements\<close>

text \<open>The dictionary \<open>create_timesheet\<close> builds, before the store adds \<open>_id\<close>.\<close>

definition timesheet_doc ::
  "env \<Rightarrow> val \<Rightarrow> val \<Rightarrow> val \<Rightarrow> val \<Rightarrow> val list \<Rightarrow> number \<Rightarrow> doc" where
  "timesheet_doc e project_id talent_id start_date end_date entries total_hours =
     [(''timesheet_id'',
         VStr (''TS-'' @ strftime_Ym (now e 0) @ ''-''
               @ str_nat (microsecond (now e 0) mod 1000))),
      (''project_id'', project_id),
      (''user_id'', talent_id),
      (''start_date'', start_date),
      (''end_date'', end_date),
      (''status'', VStr ''draft''),
      (''entries'', VList entries),
      (''total_hours'', VFloat total_hours),
      (''created_at'', VStr (isoformat (now e 1))),
      (''updated_at'', VStr (isoformat (now e 2)))]"

text \<open>
  An environment and stores for the examples. The clock reads 20 October 2025, 09:30,
  with the seconds and microseconds advancing from reading to reading, and the driver
  accepts every document. The arithmetic is the one of Python on the operands of the
  examples, listed with their results: \<open>0.0 + 8.0\<close> and \<open>8.0 + 8.0\<close>; \<open>40.0 / 8.0\<close> and
  \<open>5.0 * 100\<close>; \<open>1.0 / 40.0\<close>, the float next to one fortieth, and three times that float,
  which prints as \<open>0.07500000000000001\<close>. No example applies an operator to other
  operands, for which the environment raises \<open>TypeError\<close>.
\<close>

definition demo_sums :: "((number \<times> val) \<times> number) list" where
  "demo_sums =
     [((Fin 0, VFloat (Fin 8)), Fin 8),
      ((Fin 8, VFloat (Fin 8)), Fin 16)]"

definition demo_quotients :: "((val \<times> val) \<times> val) list" where
  "demo_quotients =
     [((VFloat (Fin 40), VFloat (Fin 8)), VFloat (Fin 5)),
      ((VFloat (Fin 1), VFloat (Fin 40)),
       VFloat (Fin (3602879701896397 / 144115188075855872)))]"

definition demo_products :: "((val \<times> val) \<times> val) list" where
  "demo_products =
     [((VFloat (Fin 5), VInt 100), VFloat (Fin 500)),
      ((VFloat (Fin (3602879701896397 / 144115188075855872)), VFloat (Fin 3)),
       VFloat (Fin (1351079888211149 / 18014398509481984)))]"

definition listed :: "('a \<times> 'b) list \<Rightarrow> 'a \<Rightarrow> error + 'b" where
  "listed table x = (case map_of table x of None \<Rightarrow> Inl TypeError | Some r \<Rightarrow> Inr r)"

definition demo_env :: env where
  "demo_env =
     \<lparr>now = (\<lambda>k. \<lparr>year = 2025, month = 10, day = 20, hour = 9, minute = 30, second = k,
                   microsecond = 123456 + k\<rparr>),
      str_other = (\<lambda>v. ''?''),
      py_mul = (\<lambda>a b. listed demo_products (a, b)),
      py_truediv = (\<lambda>a b. listed demo_quotients (a, b)),
      float_add = (\<lambda>x b. listed demo_sums (x, b)),
      refuses = (\<lambda>d. None)\<rparr>"

definition empty_store :: store where
  "empty_store = \<lparr>colls = (\<lambda>c. []), next_oid = 0, log = []\<rparr>"

text \<open>The timesheet that the example call of \<open>create_timesheet\<close> returns.\<close>

definition demo_timesheet :: doc where
  "demo_timesheet =
     [(''timesheet_id'', VStr ''TS-202510-456''),
      (''project_id'', VStr ''p1''),
      (''user_id'', VStr ''t1''),
      (''start_date'', VStr ''2025-10-31''),
      (''end_date'', VStr ''2025-11-01''),
      (''status'', VStr ''draft''),
      (''entries'',
         VList [VDoc [(''date'', VStr ''2025-10-31''), (''hours'', VFloat (Fin 8)),
                      (''description'', VNone)],
                VDoc [(''date'', VStr ''2025-11-01''), (''hours'', VFloat (Fin 8)),
                      (''description'', VNone)]]),
      (''total_hours'', VFloat (Fin 16)),
      (''created_at'', VStr ''2025-10-20T09:30:01.123457''),
      (''updated_at'', VStr ''2025-10-20T09:30:02.123458''),
      (''_id'', VStr ''000000000000000000000000'')]"

text \<open>
  A store for the examples: one timesheet of 40 hours in status \<open>draft\<close>, the rate
  settings of its project and talent (a daily rate of 100), one invoice and one expense.
\<close>

definition demo_sheet :: doc where
  "demo_sheet =
     [(''_id'', VOid 7),
      (''timesheet_id'', VStr ''TS-202510-148''),
      (''project_id'', VStr ''p1''),
      (''user_id'', VStr ''t1''),
      (''start_date'', VStr ''2025-10-06''),
      (''end_date'', VStr ''2025-10-10''),
      (''status'', VStr ''draft''),
      (''entries'', VList []),
      (''total_hours'', VFloat (Fin 40)),
      (''updated_at'', VStr ''2025-10-01T09:00:00'')]"

definition demo_rate :: doc where
  "demo_rate =
     [(''project_id'', VStr ''p1''),
      (''talent_id'', VStr ''t1''),
      (''talentInvoiceRateType'', VStr ''Daily''),
      (''talentInvoiceRateValue'', VInt 100),
      (''talentInvoicingCurrency'', VStr ''EUR'')]"

definition demo_invoice :: doc where
  "demo_invoice =
     [(''invoice_number'', VStr ''INV-202511-186''),
      (''status'', VStr ''sent''),
      (''updated_at'', VStr ''2025-10-01T09:00:00'')]"

definition demo_expense :: doc where
  "demo_expense =
     [(''expense_id'', VStr ''6479b09b-07f3-433c-aaae-ddc9b9b8f21d''),
      (''project_id'', VStr ''p1''),
      (''total_amount'', VInt 25)]"

definition demo_store :: store where
  "demo_store =
     \<lparr>colls = (\<lambda>c. [])(TIMESHEETS := [demo_sheet], TALENT_INVOICE := [demo_rate],
                         INVOICES := [demo_invoice], EXPENSES := [demo_expense]),
      next_oid = 8, log = []\<rparr>"

text \<open>
  The amount of the item of an invoice that a creation has returned: the result has to
  be an invoice whose \<open>items\<close> are a list of one dictionary.
\<close>

definition amount_invoiced :: "error + doc \<Rightarrow> val option" where
  "amount_invoiced result =
     (case result of
        Inl err \<Rightarrow> None
      | Inr invoice \<Rightarrow>
          (case map_of invoice ''items'' of
             Some (VList [VDoc item]) \<Rightarrow> map_of item ''amount''
           | _ \<Rightarrow> None))"

text \<open>
  A store with one timesheet of the given \<open>total_hours\<close> and the rate settings of its
  project and talent, of the given rate type and rate value.
\<close>

definition priced_store :: "val \<Rightarrow> val \<Rightarrow> val \<Rightarrow> store" where
  "priced_store total_hours rate_type rate_value =
     \<lparr>colls = (\<lambda>c. [])
        (TIMESHEETS := [[(''_id'', VOid 1),
                         (''timesheet_id'', VStr ''TS-202510-148''),
                         (''project_id'', VStr ''p1''),
                         (''user_id'', VStr ''t1''),
                         (''total_hours'', total_hours)]],
         TALENT_INVOICE := [[(''project_id'', VStr ''p1''),
                             (''talent_id'', VStr ''t1''),
                             (''talentInvoiceRateType'', rate_type),
                             (''talentInvoiceRateValue'', rate_value)]]),
      next_oid = 2, log = []\<rparr>"

text \<open>The fields of a timesheet that a date-range regeneration writes.\<close>

definition date_fields :: "doc \<Rightarrow> val list" where
  "date_fields d = map (get d) [''start_date'', ''end_date'', ''entries'', ''total_hours'']"

text \<open>
  An entity mapping of an update request that holds a status as well as a date range.
\<close>

definition demo_update :: doc where
  "demo_update =
     [(''timesheet_id'', VStr ''TS-202510-148''),
      (''status'', VStr ''submitted''),
      (''start_date'', VStr ''2025-10-06''),
      (''end_date'', VStr ''2025-10-12'')]"

text \<open>
  A calendar day is a \<open>datetime\<close> at midnight whose date exists; \<open>dt_lt\<close> is the strict
  order of \<open>datetime\<close> objects, and \<open>entry_of\<close> the timesheet entry of a day.
\<close>

definition calendar_day :: "datetime \<Rightarrow> bool" where
  "calendar_day dt \<longleftrightarrow>
     valid_date (year dt) (month dt) (day dt) \<and>
     hour dt = 0 \<and> minute dt = 0 \<and> second dt = 0 \<and> microsecond dt = 0"

definition dt_lt :: "datetime \<Rightarrow> datetime \<Rightarrow> bool" where
  "dt_lt a b \<longleftrightarrow> dt_le a b \<and> a \<noteq> b"

definition entry_of :: "val \<Rightarrow> datetime \<Rightarrow> val" where
  "entry_of h dt =
     VDoc [(''date'', VStr (strftime_ymd dt)), (''hours'', h), (''description'', VNone)]"

text \<open>The last day a \<open>datetime\<close> can hold.\<close>

definition last_day :: datetime where
  "last_day = \<lparr>year = 9999, month = 12, day = 31, hour = 0, minute = 0, second = 0,
               microsecond = 0\<rparr>"
section \<open>Properties of timesheet creation\<close>

lemma create_timesheet_eq:
  assumes "strptime start_date = Inr start" "strptime end_date = Inr en"
    and "generate_entries e start en hours_per_day [] (Fin 0) = Inr (entries, total_hours)"
    and "refuses e (timesheet_doc e project_id talent_id start_date end_date entries total_hours
                    @ [(''_id'', VOid (next_oid st))]) = None"
  shows "create_timesheet e st project_id talent_id start_date end_date hours_per_day
    = (Inr (timesheet_doc e project_id talent_id start_date end_date entries total_hours
            @ [(''_id'', VStr (oid_str (next_oid st)))]),
       st\<lparr>colls := (colls st)(TIMESHEETS := colls st TIMESHEETS @
               [timesheet_doc e project_id talent_id start_date end_date entries total_hours
                @ [(''_id'', VOid (next_oid st))]]),
          next_oid := Suc (next_oid st),
          log := log st @ [InsertOne TIMESHEETS
               (timesheet_doc e project_id talent_id start_date end_date entries total_hours
                @ [(''_id'', VOid (next_oid st))])]\<rparr>)"
proof -
  have ins: "insert_one e st TIMESHEETS
               (timesheet_doc e project_id talent_id start_date end_date entries total_hours)
    = (Inr (VOid (next_oid st),
            timesheet_doc e project_id talent_id start_date end_date entries total_hours
            @ [(''_id'', VOid (next_oid st))]),
       st\<lparr>colls := (colls st)(TIMESHEETS := colls st TIMESHEETS @
               [timesheet_doc e project_id talent_id start_date end_date entries total_hours
                @ [(''_id'', VOid (next_oid st))]]),
          next_oid := Suc (next_oid st),
          log := log st @ [InsertOne TIMESHEETS
               (timesheet_doc e project_id talent_id start_date end_date entries total_hours
                @ [(''_id'', VOid (next_oid st))])]\<rparr>)"
    using assms(4)
    by (simp add: insert_one_def timesheet_doc_def Let_def get_def get_or_def)
  have "create_timesheet e st project_id talent_id start_date end_date hours_per_day
    = (case insert_one e st TIMESHEETS
              (timesheet_doc e project_id talent_id start_date end_date entries total_hours) of
         (Inl err, st1) \<Rightarrow> (Inl err, st1)
       | (Inr (inserted_id, timesheet1), st1) \<Rightarrow>
           (Inr (AList.update ''_id'' (str_id e inserted_id) timesheet1), st1))"
    using assms(1-3) by (simp add: create_timesheet_def timesheet_doc_def Let_def)
  then show ?thesis
    unfolding ins by (simp add: timesheet_doc_def str_id_def)
qed

lemma create_timesheet_InrD:
  assumes "fst (create_timesheet e st project_id talent_id start_date end_date hours_per_day)
             = Inr d"
  shows "\<exists>start en entries total_hours.
           strptime start_date = Inr start \<and> strptime end_date = Inr en \<and>
           generate_entries e start en hours_per_day [] (Fin 0) = Inr (entries, total_hours) \<and>
           refuses e (timesheet_doc e project_id talent_id start_date end_date entries
                        total_hours @ [(''_id'', VOid (next_oid st))]) = None"
proof -
  obtain start where s: "strptime start_date = Inr start"
    using assms by (cases "strptime start_date") (simp_all add: create_timesheet_def Let_def)
  obtain en where en: "strptime end_date = Inr en"
    using assms s by (cases "strptime end_date") (simp_all add: create_timesheet_def Let_def)
  obtain entries total_hours where
    g: "generate_entries e start en hours_per_day [] (Fin 0) = Inr (entries, total_hours)"
    using assms s en
    by (cases "generate_entries e start en hours_per_day [] (Fin 0)")
       (auto simp: create_timesheet_def Let_def)
  have "refuses e (timesheet_doc e project_id talent_id start_date end_date entries
                     total_hours @ [(''_id'', VOid (next_oid st))]) = None"
  proof (cases "refuses e (timesheet_doc e project_id talent_id start_date end_date entries
                     total_hours @ [(''_id'', VOid (next_oid st))])")
    case None
    then show ?thesis .
  next
    case (Some err)
    then have "fst (create_timesheet e st project_id talent_id start_date end_date
                      hours_per_day) = Inl err"
      using s en g
      by (simp add: create_timesheet_def insert_one_def timesheet_doc_def Let_def)
    with assms show ?thesis by simp
  qed
  with s en g show ?thesis by blast
qed

lemma create_timesheet_doc:
  assumes "fst (create_timesheet e st project_id talent_id start_date end_date hours_per_day)
             = Inr d"
  shows "\<exists>entries total_hours.
           d = timesheet_doc e project_id talent_id start_date end_date entries total_hours
               @ [(''_id'', VStr (oid_str (next_oid st)))]"
proof -
  from create_timesheet_InrD [OF assms] obtain start en entries total_hours where
    "strptime start_date = Inr start" "strptime end_date = Inr en"
    "generate_entries e start en hours_per_day [] (Fin 0) = Inr (entries, total_hours)"
    "refuses e (timesheet_doc e project_id talent_id start_date end_date entries
                  total_hours @ [(''_id'', VOid (next_oid st))]) = None"
    by blast
  from create_timesheet_eq [OF this] assms
  show ?thesis by auto
qed

lemma demo_dates:
  "strptime (VStr ''2025-10-31'')
     = Inr \<lparr>year = 2025, month = 10, day = 31, hour = 0, minute = 0, second = 0,
            microsecond = 0\<rparr>"
  "strptime (VStr ''2025-11-01'')
     = Inr \<lparr>year = 2025, month = 11, day = 1, hour = 0, minute = 0, second = 0,
            microsecond = 0\<rparr>"
  by code_simp+

lemma replicate_numeral: "replicate (numeral k) x = x # replicate (pred_numeral k) x"
  by (simp add: numeral_eq_Suc)

lemmas eval_text =
  replicate_numeral str_nat.simps zpad_def digit_chars_def strftime_Ym_def strftime_ymd_def
  isoformat_def oid_str_def

lemma demo_float_add:
  "float_add demo_env (Fin 0) (VFloat (Fin 8)) = Inr (Fin 8)"
  "float_add demo_env (Fin 8) (VFloat (Fin 8)) = Inr (Fin 16)"
  by (simp_all add: demo_env_def listed_def demo_sums_def)

lemma demo_refuses: "refuses demo_env d = None"
  by (simp add: demo_env_def)

lemma demo_entries:
  "generate_entries demo_env
     \<lparr>year = 2025, month = 10, day = 31, hour = 0, minute = 0, second = 0, microsecond = 0\<rparr>
     \<lparr>year = 2025, month = 11, day = 1, hour = 0, minute = 0, second = 0, microsecond = 0\<rparr>
     (VFloat (Fin 8)) [] (Fin 0)
   = Inr ([VDoc [(''date'', VStr ''2025-10-31''), (''hours'', VFloat (Fin 8)),
                 (''description'', VNone)],
           VDoc [(''date'', VStr ''2025-11-01''), (''hours'', VFloat (Fin 8)),
                 (''description'', VNone)]],
          Fin 16)"
proof -
  have le: "dt_le \<lparr>year = 2025, month = 10, day = 31, hour = 0, minute = 0, second = 0,
                   microsecond = 0\<rparr>
                  \<lparr>year = 2025, month = 11, day = 1, hour = 0, minute = 0, second = 0,
                   microsecond = 0\<rparr>"
    "dt_le \<lparr>year = 2025, month = 11, day = 1, hour = 0, minute = 0, second = 0,
            microsecond = 0\<rparr>
           \<lparr>year = 2025, month = 11, day = 1, hour = 0, minute = 0, second = 0,
            microsecond = 0\<rparr>"
    "\<not> dt_le \<lparr>year = 2025, month = 11, day = 2, hour = 0, minute = 0, second = 0,
              microsecond = 0\<rparr>
             \<lparr>year = 2025, month = 11, day = 1, hour = 0, minute = 0, second = 0,
              microsecond = 0\<rparr>"
    by (simp_all add: dt_le_def dt_fields_def)
  have nxt: "add_one_day \<lparr>year = 2025, month = 10, day = 31, hour = 0, minute = 0,
                          second = 0, microsecond = 0\<rparr>
             = Inr \<lparr>year = 2025, month = 11, day = 1, hour = 0, minute = 0, second = 0,
                    microsecond = 0\<rparr>"
    "add_one_day \<lparr>year = 2025, month = 11, day = 1, hour = 0, minute = 0,
                  second = 0, microsecond = 0\<rparr>
             = Inr \<lparr>year = 2025, month = 11, day = 2, hour = 0, minute = 0, second = 0,
                    microsecond = 0\<rparr>"
    by (simp_all add: add_one_day_def days_in_month_def is_leap_def)
  have ymd: "strftime_ymd \<lparr>year = 2025, month = 10, day = 31, hour = 0, minute = 0,
                           second = 0, microsecond = 0\<rparr> = ''2025-10-31''"
    "strftime_ymd \<lparr>year = 2025, month = 11, day = 1, hour = 0, minute = 0,
                   second = 0, microsecond = 0\<rparr> = ''2025-11-01''"
    by (simp_all add: eval_text)
  show ?thesis
    apply (subst generate_entries.simps)
    apply (simp only: le if_True Let_def demo_float_add nxt ymd sum.case)
    apply (subst generate_entries.simps)
    apply (simp only: le if_True Let_def demo_float_add nxt ymd sum.case)
    apply (subst generate_entries.simps)
    apply (simp only: le if_False append.simps)
    done
qed

lemma demo_created:
  "fst (create_timesheet demo_env empty_store (VStr ''p1'') (VStr ''t1'') (VStr ''2025-10-31'')
          (VStr ''2025-11-01'') (VFloat (Fin 8)))
   = Inr demo_timesheet"
proof -
  have "timesheet_doc demo_env (VStr ''p1'') (VStr ''t1'') (VStr ''2025-10-31'')
          (VStr ''2025-11-01'')
          [VDoc [(''date'', VStr ''2025-10-31''), (''hours'', VFloat (Fin 8)),
                 (''description'', VNone)],
           VDoc [(''date'', VStr ''2025-11-01''), (''hours'', VFloat (Fin 8)),
                 (''description'', VNone)]]
          (Fin 16)
        @ [(''_id'', VStr (oid_str (next_oid empty_store)))] = demo_timesheet"
    by (simp add: timesheet_doc_def demo_timesheet_def demo_env_def empty_store_def eval_text)
  then show ?thesis
    by (simp add: create_timesheet_eq [OF demo_dates demo_entries demo_refuses])
qed

text \<open>
  C9 (as amended). A timesheet document that \<open>create_timesheet\<close> returns holds the talent
  passed to the operation under the field \<open>user_id\<close>, and has no field \<open>talent_id\<close>; it
  also holds \<open>project_id\<close>, \<open>start_date\<close>, \<open>end_date\<close>, \<open>status\<close>, \<open>entries\<close> and
  \<open>total_hours\<close>.
\<close>

theorem created_timesheet_fields:
  assumes "fst (create_timesheet e st project_id talent_id start_date end_date hours_per_day)
             = Inr d"
  shows "map_of d ''user_id'' = Some talent_id \<and> map_of d ''talent_id'' = None
       \<and> map_of d ''project_id'' = Some project_id
       \<and> map_of d ''start_date'' = Some start_date \<and> map_of d ''end_date'' = Some end_date
       \<and> map_of d ''status'' = Some (VStr ''draft'')
       \<and> (\<exists>entries. map_of d ''entries'' = Some (VList entries))
       \<and> (\<exists>total_hours. map_of d ''total_hours'' = Some (VFloat total_hours))"
proof -
  from create_timesheet_doc [OF assms] obtain entries total_hours where
    "d = timesheet_doc e project_id talent_id start_date end_date entries total_hours
         @ [(''_id'', VStr (oid_str (next_oid st)))]"
    by blast
  then show ?thesis by (simp add: timesheet_doc_def)
qed

theorem created_timesheet_fields_witness:
  "fst (create_timesheet demo_env empty_store (VStr ''p1'') (VStr ''t1'') (VStr ''2025-10-31'')
          (VStr ''2025-11-01'') (VFloat (Fin 8))) = Inr demo_timesheet
   \<and> map_of demo_timesheet ''user_id'' = Some (VStr ''t1'')
   \<and> map_of demo_timesheet ''talent_id'' = None
   \<and> map_of demo_timesheet ''project_id'' = Some (VStr ''p1'')"
  using created_timesheet_fields [OF demo_created] demo_created by blast

text \<open>
  C9 as written names the field \<open>talent_id\<close>. The document created for talent \<open>t1\<close> has
  no such field: the talent is stored as \<open>user_id\<close>, the field the other operations on
  timesheets read.
\<close>

theorem timesheet_talent_id_counterexample:
  "fst (create_timesheet demo_env empty_store (VStr ''p1'') (VStr ''t1'') (VStr ''2025-10-31'')
          (VStr ''2025-11-01'') (VFloat (Fin 8))) = Inr demo_timesheet
   \<and> map_of demo_timesheet ''talent_id'' = None
   \<and> map_of demo_timesheet ''user_id'' = Some (VStr ''t1'')"
proof -
  have "map_of demo_timesheet ''talent_id'' = None"
    "map_of demo_timesheet ''user_id'' = Some (VStr ''t1'')"
    by (simp_all add: demo_timesheet_def)
  with demo_created show ?thesis by blast
qed
section \<open>Properties of invoice creation\<close>

lemma get_or_update_other: "k \<noteq> k' \<Longrightarrow> get_or (AList.update k' v d) k dflt = get_or d k dflt"
  by (simp add: get_or_def update_conv')

lemma stringify_id_Some:
  "stringify_id e (Some d) = Some d' \<Longrightarrow> k \<noteq> ''_id'' \<Longrightarrow> get_or d' k dflt = get_or d k dflt"
  by (auto simp: stringify_id_def get_or_update_other split: if_splits)

lemma stringify_id_nonempty:
  assumes "d \<noteq> []"
  obtains d' where "stringify_id e (Some d) = Some d'" "d' \<noteq> []"
  using assms by (cases "map_of d ''_id''") (auto simp: stringify_id_def)

lemma create_timesheet_invoice_amount:
  assumes ts: "find (matches [(''timesheet_id'', timesheet_id)]) (colls st TIMESHEETS) = Some ts"
      "ts \<noteq> []"
    and ti: "find (matches [(''project_id'', get ts ''project_id''),
                            (''talent_id'', get ts ''user_id'')]) (colls st TALENT_INVOICE)
             = Some ti" "ti \<noteq> []"
    and acc: "\<forall>d. refuses e d = None"
    and H: "get_or ts ''total_hours'' (VInt 0) = H"
    and R: "get_or ti ''talentInvoiceRateValue'' (VInt 0) = R"
    and rt: "get_or ti ''talentInvoiceRateType'' (VStr ''Hourly'') = rate_type"
    and due: "add_days (now e 2) 30 = Inr due"
    and amount: "calculate_invoice_amount e rate_type H R = Inr a"
  shows "amount_invoiced (fst (create_timesheet_invoice e st timesheet_id)) = Some a"
proof -
  obtain ts' where ts': "stringify_id e (Some ts) = Some ts'" "ts' \<noteq> []"
    using ts(2) by (rule stringify_id_nonempty)
  have g: "get ts' ''project_id'' = get ts ''project_id''"
    "get ts' ''user_id'' = get ts ''user_id''"
    "get_or ts' ''total_hours'' (VInt 0) = H"
    using stringify_id_Some [OF ts'(1)] H by (simp_all add: get_def)
  have t: "get_timesheet e st timesheet_id
           = (Inr (Some ts'), st\<lparr>log := log st @ [FindOne TIMESHEETS
                                        [(''timesheet_id'', timesheet_id)]]\<rparr>)"
    using ts ts' acc by (simp add: get_timesheet_def find_one_def)
  show ?thesis
    unfolding create_timesheet_invoice_def t
    using ti ts' g R rt due acc amount
    by (simp add: find_one_def Let_def truthy_doc_def insert_one_def amount_invoiced_def)
qed

text \<open>
  C1. Let the timesheet have \<open>total_hours\<close> \<open>H\<close> and the rate settings found for its
  project and talent have \<open>rate_value\<close> \<open>R\<close> (each the integer 0 when the field is
  missing) and a \<open>rate_type\<close> (\<open>Hourly\<close> when the field is missing); let the due date, 30
  days after the clock reading, exist and the driver accept the documents. The products
  and quotients are those of Python, on integers and on floats with their rounding, in
  the order in which the formulas are written: for \<open>Hourly\<close> the amount of the item of
  the invoice that \<open>create_timesheet_invoice\<close> returns is the product \<open>H * R\<close>; for
  \<open>Daily\<close>, \<open>Weekly\<close> and \<open>Monthly\<close> it is the product with \<open>R\<close> of the quotient of \<open>H\<close> by
  the float \<open>8.0\<close>, \<open>40.0\<close> and \<open>160.0\<close>; for any other rate type the invoice is returned
  with the amount \<open>0.0\<close>, whatever \<open>H\<close> and \<open>R\<close> are.
\<close>

theorem invoice_amount_by_rate_type:
  assumes "find (matches [(''timesheet_id'', timesheet_id)]) (colls st TIMESHEETS) = Some ts"
      and "ts \<noteq> []"
      and "find (matches [(''project_id'', get ts ''project_id''),
                          (''talent_id'', get ts ''user_id'')]) (colls st TALENT_INVOICE)
           = Some ti"
      and "ti \<noteq> []"
      and "\<forall>d. refuses e d = None"
      and "get_or ts ''total_hours'' (VInt 0) = H"
      and "get_or ti ''talentInvoiceRateValue'' (VInt 0) = R"
      and "get_or ti ''talentInvoiceRateType'' (VStr ''Hourly'') = rate_type"
      and "add_days (now e 2) 30 = Inr due"
  shows "(rate_type = VStr ''Hourly'' \<longrightarrow>
            (\<forall>a. py_mul e H R = Inr a \<longrightarrow>
               amount_invoiced (fst (create_timesheet_invoice e st timesheet_id)) = Some a))
       \<and> (rate_type = VStr ''Daily'' \<longrightarrow>
            (\<forall>q a. py_truediv e H (VFloat (Fin 8)) = Inr q \<longrightarrow> py_mul e q R = Inr a \<longrightarrow>
               amount_invoiced (fst (create_timesheet_invoice e st timesheet_id)) = Some a))
       \<and> (rate_type = VStr ''Weekly'' \<longrightarrow>
            (\<forall>q a. py_truediv e H (VFloat (Fin 40)) = Inr q \<longrightarrow> py_mul e q R = Inr a \<longrightarrow>
               amount_invoiced (fst (create_timesheet_invoice e st timesheet_id)) = Some a))
       \<and> (rate_type = VStr ''Monthly'' \<longrightarrow>
            (\<forall>q a. py_truediv e H (VFloat (Fin 160)) = Inr q \<longrightarrow> py_mul e q R = Inr a \<longrightarrow>
               amount_invoiced (fst (create_timesheet_invoice e st timesheet_id)) = Some a))
       \<and> (rate_type \<notin> {VStr ''Hourly'', VStr ''Daily'', VStr ''Weekly'', VStr ''Monthly''} \<longrightarrow>
            amount_invoiced (fst (create_timesheet_invoice e st timesheet_id))
              = Some (VFloat (Fin 0)))"
proof -
  note amount = create_timesheet_invoice_amount [OF assms]
  have hourly: "rate_type = VStr ''Hourly'' \<longrightarrow>
            (\<forall>a. py_mul e H R = Inr a \<longrightarrow>
               amount_invoiced (fst (create_timesheet_invoice e st timesheet_id)) = Some a)"
    by (auto intro!: amount simp: calculate_invoice_amount_def)
  have daily: "rate_type = VStr ''Daily'' \<longrightarrow>
            (\<forall>q a. py_truediv e H (VFloat (Fin 8)) = Inr q \<longrightarrow> py_mul e q R = Inr a \<longrightarrow>
               amount_invoiced (fst (create_timesheet_invoice e st timesheet_id)) = Some a)"
    by (auto intro!: amount simp: calculate_invoice_amount_def)
  have weekly: "rate_type = VStr ''Weekly'' \<longrightarrow>
            (\<forall>q a. py_truediv e H (VFloat (Fin 40)) = Inr q \<longrightarrow> py_mul e q R = Inr a \<longrightarrow>
               amount_invoiced (fst (create_timesheet_invoice e st timesheet_id)) = Some a)"
    by (auto intro!: amount simp: calculate_invoice_amount_def)
  have monthly: "rate_type = VStr ''Monthly'' \<longrightarrow>
            (\<forall>q a. py_truediv e H (VFloat (Fin 160)) = Inr q \<longrightarrow> py_mul e q R = Inr a \<longrightarrow>
               amount_invoiced (fst (create_timesheet_invoice e st timesheet_id)) = Some a)"
    by (auto intro!: amount simp: calculate_invoice_amount_def)
  have other: "rate_type \<notin> {VStr ''Hourly'', VStr ''Daily'', VStr ''Weekly'', VStr ''Monthly''} \<longrightarrow>
            amount_invoiced (fst (create_timesheet_invoice e st timesheet_id))
              = Some (VFloat (Fin 0))"
    by (auto intro!: amount simp: calculate_invoice_amount_def)
  from hourly daily weekly monthly other show ?thesis by blast
qed

lemma add_days_numeral:
  "add_days dt (numeral k) =
     (case add_one_day dt of Inl e \<Rightarrow> Inl e | Inr dt' \<Rightarrow> add_days dt' (pred_numeral k))"
  by (simp add: numeral_eq_Suc)

lemma demo_due:
  "add_days (now demo_env 2) 30
     = Inr \<lparr>year = 2025, month = 11, day = 19, hour = 9, minute = 30, second = 2,
            microsecond = 123458\<rparr>"
  by (simp add: demo_env_def add_days_numeral add_one_day_def days_in_month_def is_leap_def
      MAXYEAR_def)

lemma demo_accepts: "\<forall>d. refuses demo_env d = None"
  by (simp add: demo_env_def)

lemma priced_store_sheet:
  "find (matches [(''timesheet_id'', VStr ''TS-202510-148'')])
     (colls (priced_store H T R) TIMESHEETS)
   = Some [(''_id'', VOid 1), (''timesheet_id'', VStr ''TS-202510-148''),
           (''project_id'', VStr ''p1''), (''user_id'', VStr ''t1''), (''total_hours'', H)]"
  by (simp add: priced_store_def matches_def get_def get_or_def)

lemma priced_store_rate:
  "find (matches [(''project_id'',
                   get [(''_id'', VOid 1), (''timesheet_id'', VStr ''TS-202510-148''),
                        (''project_id'', VStr ''p1''), (''user_id'', VStr ''t1''),
                        (''total_hours'', H)] ''project_id''),
                  (''talent_id'',
                   get [(''_id'', VOid 1), (''timesheet_id'', VStr ''TS-202510-148''),
                        (''project_id'', VStr ''p1''), (''user_id'', VStr ''t1''),
                        (''total_hours'', H)] ''user_id'')])
     (colls (priced_store H T R) TALENT_INVOICE)
   = Some [(''project_id'', VStr ''p1''), (''talent_id'', VStr ''t1''),
           (''talentInvoiceRateType'', T), (''talentInvoiceRateValue'', R)]"
  by (simp add: priced_store_def matches_def get_def get_or_def)

lemma demo_arithmetic:
  "py_truediv demo_env (VFloat (Fin 40)) (VFloat (Fin 8)) = Inr (VFloat (Fin 5))"
  "py_mul demo_env (VFloat (Fin 5)) (VInt 100) = Inr (VFloat (Fin 500))"
  "py_truediv demo_env (VFloat (Fin 1)) (VFloat (Fin 40))
     = Inr (VFloat (Fin (3602879701896397 / 144115188075855872)))"
  "py_mul demo_env (VFloat (Fin (3602879701896397 / 144115188075855872))) (VFloat (Fin 3))
     = Inr (VFloat (Fin (1351079888211149 / 18014398509481984)))"
  by (simp_all add: demo_env_def listed_def demo_quotients_def demo_products_def)

theorem invoice_amount_by_rate_type_witness:
  "py_truediv demo_env (VFloat (Fin 40)) (VFloat (Fin 8)) = Inr (VFloat (Fin 5))
   \<and> py_mul demo_env (VFloat (Fin 5)) (VInt 100) = Inr (VFloat (Fin 500))
   \<and> amount_invoiced
        (fst (create_timesheet_invoice demo_env
                (priced_store (VFloat (Fin 40)) (VStr ''Daily'') (VInt 100))
                (VStr ''TS-202510-148'')))
      = Some (VFloat (Fin 500))
   \<and> py_truediv demo_env (VFloat (Fin 1)) (VFloat (Fin 40))
      = Inr (VFloat (Fin (3602879701896397 / 144115188075855872)))
   \<and> py_mul demo_env (VFloat (Fin (3602879701896397 / 144115188075855872))) (VFloat (Fin 3))
      = Inr (VFloat (Fin (1351079888211149 / 18014398509481984)))
   \<and> amount_invoiced
        (fst (create_timesheet_invoice demo_env
                (priced_store (VFloat (Fin 1)) (VStr ''Weekly'') (VFloat (Fin 3)))
                (VStr ''TS-202510-148'')))
      = Some (VFloat (Fin (1351079888211149 / 18014398509481984)))
   \<and> amount_invoiced
        (fst (create_timesheet_invoice demo_env
                (priced_store (VStr ''forty'') (VStr ''Yearly'') VNone)
                (VStr ''TS-202510-148'')))
      = Some (VFloat (Fin 0))"
proof -
  have daily: "amount_invoiced
        (fst (create_timesheet_invoice demo_env
                (priced_store (VFloat (Fin 40)) (VStr ''Daily'') (VInt 100))
                (VStr ''TS-202510-148'')))
      = Some (VFloat (Fin 500))"
    using invoice_amount_by_rate_type
            [OF priced_store_sheet [of "VFloat (Fin 40)" "VStr ''Daily''" "VInt 100"] _
                priced_store_rate [of "VFloat (Fin 40)" "VStr ''Daily''" "VInt 100"] _
                demo_accepts refl refl refl demo_due]
          demo_arithmetic
    by (simp add: get_or_def)
  have weekly: "amount_invoiced
        (fst (create_timesheet_invoice demo_env
                (priced_store (VFloat (Fin 1)) (VStr ''Weekly'') (VFloat (Fin 3)))
                (VStr ''TS-202510-148'')))
      = Some (VFloat (Fin (1351079888211149 / 18014398509481984)))"
    using invoice_amount_by_rate_type
            [OF priced_store_sheet [of "VFloat (Fin 1)" "VStr ''Weekly''" "VFloat (Fin 3)"] _
                priced_store_rate [of "VFloat (Fin 1)" "VStr ''Weekly''" "VFloat (Fin 3)"] _
                demo_accepts refl refl refl demo_due]
          demo_arithmetic
    by (simp add: get_or_def)
  have other: "amount_invoiced
        (fst (create_timesheet_invoice demo_env
                (priced_store (VStr ''forty'') (VStr ''Yearly'') VNone)
                (VStr ''TS-202510-148'')))
      = Some (VFloat (Fin 0))"
    using invoice_amount_by_rate_type
            [OF priced_store_sheet [of "VStr ''forty''" "VStr ''Yearly''" VNone] _
                priced_store_rate [of "VStr ''forty''" "VStr ''Yearly''" VNone] _
                demo_accepts refl refl refl demo_due]
    by (simp add: get_or_def)
  from daily weekly other demo_arithmetic show ?thesis by blast
qed
section \<open>Properties of the status updates\<close>

lemma update_same_iff: "AList.update k v al = al \<longleftrightarrow> map_of al k = Some v"
proof
  assume "AList.update k v al = al"
  then have "map_of al k = map_of (AList.update k v al) k" by simp
  then show "map_of al k = Some v" by (simp add: update_conv')
next
  assume "map_of al k = Some v"
  then show "AList.update k v al = al" by (rule update_triv)
qed

lemma apply_set_two_same_iff:
  assumes "k1 \<noteq> k2"
  shows "apply_set [(k1, v1), (k2, v2)] d = d
         \<longleftrightarrow> map_of d k1 = Some v1 \<and> map_of d k2 = Some v2"
proof
  assume eq: "apply_set [(k1, v1), (k2, v2)] d = d"
  then have "map_of (AList.update k2 v2 (AList.update k1 v1 d)) = map_of d"
    by (simp add: apply_set_def)
  then have m: "((map_of d)(k1 \<mapsto> v1))(k2 \<mapsto> v2) = map_of d"
    by (simp add: update_conv')
  from m have "map_of d k2 = Some v2" by (metis fun_upd_same)
  moreover from m assms have "map_of d k1 = Some v1"
    by (metis fun_upd_other fun_upd_same)
  ultimately show "map_of d k1 = Some v1 \<and> map_of d k2 = Some v2" by simp
next
  assume "map_of d k1 = Some v1 \<and> map_of d k2 = Some v2"
  then show "apply_set [(k1, v1), (k2, v2)] d = d"
    by (simp add: apply_set_def update_triv)
qed

lemma find_update_first:
  "find P xs = Some d \<Longrightarrow> P (g d) \<Longrightarrow> find P (update_first P g xs) = Some (g d)"
  by (induction xs) (auto split: if_splits)

lemma find_None_update_first: "find P xs = None \<Longrightarrow> update_first P g xs = xs"
  by (induction xs) (auto split: if_splits)

lemma find_matches: "find P xs = Some d \<Longrightarrow> P d"
  by (induction xs) (auto split: if_splits)

lemma stringify_id_map_of:
  "stringify_id e (Some d) = Some r \<Longrightarrow> k \<noteq> ''_id'' \<Longrightarrow> map_of r k = map_of d k"
  by (auto simp: stringify_id_def update_conv' split: if_splits)

lemma stringify_id_id:
  "stringify_id e (Some d) = Some r \<Longrightarrow> map_of r ''_id'' = map_option (str_id e) (map_of d ''_id'')"
  by (auto simp: stringify_id_def update_conv' get_def get_or_def split: if_splits)

lemma stringify_id_ex: "\<exists>r. stringify_id e (Some d) = Some r"
  by (simp add: stringify_id_def)

text \<open>The \<open>$set\<close> document of a status update and what it does to a record.\<close>

lemma status_set_fields:
  "map_of (apply_set [(''status'', s), (''updated_at'', u)] d)
     = (map_of d)(''status'' \<mapsto> s, ''updated_at'' \<mapsto> u)"
  by (simp add: apply_set_def update_conv')

lemma status_set_matches:
  assumes "key \<noteq> ''status''" "key \<noteq> ''updated_at''" "matches [(key, ident)] d"
  shows "matches [(key, ident)] (apply_set [(''status'', s), (''updated_at'', u)] d)"
  using assms by (simp add: matches_def get_def get_or_def status_set_fields)

text \<open>
  A status update of a record that the filter finds, when the driver accepts the
  documents: the count the store reports, the store it leaves and the record that the
  getter then returns.
\<close>

lemma status_update_count:
  assumes "find (matches [(key, ident)]) (colls st c) = Some d"
    and "\<forall>x. refuses e x = None"
  shows "update_one e st c [(key, ident)] [(''status'', status), (''updated_at'', VStr stamp)]
         = (Inr (if map_of d ''status'' = Some status
                    \<and> map_of d ''updated_at'' = Some (VStr stamp) then 0 else 1),
            st\<lparr>colls := (colls st)(c := update_first (matches [(key, ident)])
                            (apply_set [(''status'', status), (''updated_at'', VStr stamp)])
                            (colls st c)),
               log := log st @ [UpdateOne c [(key, ident)]
                                  [(''status'', status), (''updated_at'', VStr stamp)]]\<rparr>)"
  using assms apply_set_two_same_iff [of "''status''" "''updated_at''" status "VStr stamp" d]
  by (simp add: update_one_def Let_def)

lemma status_update_found:
  assumes "find (matches [(key, ident)]) (colls st c) = Some d"
    and "key \<noteq> ''status''" "key \<noteq> ''updated_at''"
  shows "find (matches [(key, ident)])
           (update_first (matches [(key, ident)])
              (apply_set [(''status'', status), (''updated_at'', VStr stamp)]) (colls st c))
         = Some (apply_set [(''status'', status), (''updated_at'', VStr stamp)] d)"
  using assms(1) status_set_matches [OF assms(2,3) find_matches [OF assms(1)]]
  by (rule find_update_first)

lemma status_record:
  assumes "stringify_id e (Some (apply_set [(''status'', status), (''updated_at'', u)] d))
           = Some r"
  shows "map_of r ''status'' = Some status \<and> map_of r ''updated_at'' = Some u
       \<and> map_of r ''_id'' = map_option (str_id e) (map_of d ''_id'')
       \<and> (\<forall>k. k \<notin> {''status'', ''updated_at'', ''_id''} \<longrightarrow> map_of r k = map_of d k)"
  using stringify_id_map_of [OF assms] stringify_id_id [OF assms]
  by (simp add: status_set_fields)

lemma update_timesheet_status_found:
  assumes f: "find (matches [(''timesheet_id'', timesheet_id)]) (colls st TIMESHEETS) = Some d"
    and v: "status \<in> {VStr ''draft'', VStr ''submitted'', VStr ''approved'', VStr ''rejected''}"
    and acc: "\<forall>x. refuses e x = None"
  shows "fst (update_timesheet_status e st timesheet_id status)
         = (if map_of d ''status'' = Some status
               \<and> map_of d ''updated_at'' = Some (VStr (isoformat (now e 0)))
            then Inl (ValueError (''Timesheet '' @ py_str e timesheet_id @ '' not found''))
            else Inr (stringify_id e
                        (Some (apply_set [(''status'', status),
                                          (''updated_at'', VStr (isoformat (now e 0)))] d))))"
  using v acc status_update_found [OF f, of status "isoformat (now e 0)"]
  by (simp add: update_timesheet_status_def status_update_count [OF f acc]
      get_timesheet_def find_one_def)

lemma update_invoice_status_found:
  assumes f: "find (matches [(''invoice_number'', invoice_number)]) (colls st INVOICES) = Some d"
    and v: "status \<in> {VStr ''draft'', VStr ''sent'', VStr ''paid'', VStr ''cancelled''}"
    and acc: "\<forall>x. refuses e x = None"
  shows "fst (update_invoice_status e st invoice_number status)
         = (if map_of d ''status'' = Some status
               \<and> map_of d ''updated_at'' = Some (VStr (isoformat (now e 0)))
            then Inl (ValueError (''Invoice '' @ py_str e invoice_number @ '' not found''))
            else Inr (stringify_id e
                        (Some (apply_set [(''status'', status),
                                          (''updated_at'', VStr (isoformat (now e 0)))] d))))"
  using v acc status_update_found [OF f, of status "isoformat (now e 0)"]
  by (simp add: update_invoice_status_def status_update_count [OF f acc]
      get_invoice_def find_one_def)

text \<open>
  C10 (as amended). For a timesheet or invoice that exists, a valid status and a driver
  that accepts the documents, the status update raises the not-found error exactly when
  the record already holds the requested status and, as \<open>updated_at\<close>, the very time
  stamp the update writes, which is when the store reports that nothing was modified. In
  every other case, a request for the status the record already holds included, the call
  returns the record: it holds the requested status and the time stamp of the update,
  its \<open>_id\<close> as text, and every other field as it was stored.
\<close>

theorem same_status_update_not_found_iff:
  "(find (matches [(''timesheet_id'', timesheet_id)]) (colls st TIMESHEETS) = Some d \<longrightarrow>
    status \<in> {VStr ''draft'', VStr ''submitted'', VStr ''approved'', VStr ''rejected''} \<longrightarrow>
    (\<forall>x. refuses e x = None) \<longrightarrow>
      (fst (update_timesheet_status e st timesheet_id status)
         = Inl (ValueError (''Timesheet '' @ py_str e timesheet_id @ '' not found''))
       \<longleftrightarrow> map_of d ''status'' = Some status
           \<and> map_of d ''updated_at'' = Some (VStr (isoformat (now e 0)))) \<and>
      (\<not> (map_of d ''status'' = Some status
           \<and> map_of d ''updated_at'' = Some (VStr (isoformat (now e 0))))
       \<longrightarrow> (\<exists>r. fst (update_timesheet_status e st timesheet_id status) = Inr (Some r)
               \<and> map_of r ''status'' = Some status
               \<and> map_of r ''updated_at'' = Some (VStr (isoformat (now e 0)))
               \<and> map_of r ''_id'' = map_option (str_id e) (map_of d ''_id'')
               \<and> (\<forall>k. k \<notin> {''status'', ''updated_at'', ''_id''}
                        \<longrightarrow> map_of r k = map_of d k))))
 \<and> (find (matches [(''invoice_number'', invoice_number)]) (colls st INVOICES) = Some i \<longrightarrow>
    istatus \<in> {VStr ''draft'', VStr ''sent'', VStr ''paid'', VStr ''cancelled''} \<longrightarrow>
    (\<forall>x. refuses e x = None) \<longrightarrow>
      (fst (update_invoice_status e st invoice_number istatus)
         = Inl (ValueError (''Invoice '' @ py_str e invoice_number @ '' not found''))
       \<longleftrightarrow> map_of i ''status'' = Some istatus
           \<and> map_of i ''updated_at'' = Some (VStr (isoformat (now e 0)))) \<and>
      (\<not> (map_of i ''status'' = Some istatus
           \<and> map_of i ''updated_at'' = Some (VStr (isoformat (now e 0))))
       \<longrightarrow> (\<exists>r. fst (update_invoice_status e st invoice_number istatus) = Inr (Some r)
               \<and> map_of r ''status'' = Some istatus
               \<and> map_of r ''updated_at'' = Some (VStr (isoformat (now e 0)))
               \<and> map_of r ''_id'' = map_option (str_id e) (map_of i ''_id'')
               \<and> (\<forall>k. k \<notin> {''status'', ''updated_at'', ''_id''}
                        \<longrightarrow> map_of r k = map_of i k))))"
proof (intro conjI impI)
  assume f: "find (matches [(''timesheet_id'', timesheet_id)]) (colls st TIMESHEETS) = Some d"
    and v: "status \<in> {VStr ''draft'', VStr ''submitted'', VStr ''approved'', VStr ''rejected''}"
    and acc: "\<forall>x. refuses e x = None"
  note r = update_timesheet_status_found [OF f v acc]
  show "fst (update_timesheet_status e st timesheet_id status)
          = Inl (ValueError (''Timesheet '' @ py_str e timesheet_id @ '' not found''))
        \<longleftrightarrow> map_of d ''status'' = Some status
            \<and> map_of d ''updated_at'' = Some (VStr (isoformat (now e 0)))"
    unfolding r by simp
  show "\<exists>r. fst (update_timesheet_status e st timesheet_id status) = Inr (Some r)
               \<and> map_of r ''status'' = Some status
               \<and> map_of r ''updated_at'' = Some (VStr (isoformat (now e 0)))
               \<and> map_of r ''_id'' = map_option (str_id e) (map_of d ''_id'')
               \<and> (\<forall>k. k \<notin> {''status'', ''updated_at'', ''_id''}
                        \<longrightarrow> map_of r k = map_of d k)"
    if n: "\<not> (map_of d ''status'' = Some status
           \<and> map_of d ''updated_at'' = Some (VStr (isoformat (now e 0))))"
  proof -
    obtain x where x: "stringify_id e
        (Some (apply_set [(''status'', status),
                          (''updated_at'', VStr (isoformat (now e 0)))] d)) = Some x"
      using stringify_id_ex by blast
    from r n x have "fst (update_timesheet_status e st timesheet_id status) = Inr (Some x)"
      by simp
    with status_record [OF x] show ?thesis by blast
  qed
next
  assume f: "find (matches [(''invoice_number'', invoice_number)]) (colls st INVOICES) = Some i"
    and v: "istatus \<in> {VStr ''draft'', VStr ''sent'', VStr ''paid'', VStr ''cancelled''}"
    and acc: "\<forall>x. refuses e x = None"
  note r = update_invoice_status_found [OF f v acc]
  show "fst (update_invoice_status e st invoice_number istatus)
          = Inl (ValueError (''Invoice '' @ py_str e invoice_number @ '' not found''))
        \<longleftrightarrow> map_of i ''status'' = Some istatus
            \<and> map_of i ''updated_at'' = Some (VStr (isoformat (now e 0)))"
    unfolding r by simp
  show "\<exists>r. fst (update_invoice_status e st invoice_number istatus) = Inr (Some r)
               \<and> map_of r ''status'' = Some istatus
               \<and> map_of r ''updated_at'' = Some (VStr (isoformat (now e 0)))
               \<and> map_of r ''_id'' = map_option (str_id e) (map_of i ''_id'')
               \<and> (\<forall>k. k \<notin> {''status'', ''updated_at'', ''_id''}
                        \<longrightarrow> map_of r k = map_of i k)"
    if n: "\<not> (map_of i ''status'' = Some istatus
           \<and> map_of i ''updated_at'' = Some (VStr (isoformat (now e 0))))"
  proof -
    obtain x where x: "stringify_id e
        (Some (apply_set [(''status'', istatus),
                          (''updated_at'', VStr (isoformat (now e 0)))] i)) = Some x"
      using stringify_id_ex by blast
    from r n x have "fst (update_invoice_status e st invoice_number istatus) = Inr (Some x)"
      by simp
    with status_record [OF x] show ?thesis by blast
  qed
qed

lemma demo_find_sheet:
  "find (matches [(''timesheet_id'', VStr ''TS-202510-148'')]) (colls demo_store TIMESHEETS)
     = Some demo_sheet"
  by (simp add: demo_store_def demo_sheet_def matches_def get_def get_or_def)

lemma demo_find_invoice:
  "find (matches [(''invoice_number'', VStr ''INV-202511-186'')]) (colls demo_store INVOICES)
     = Some demo_invoice"
  by (simp add: demo_store_def demo_invoice_def matches_def get_def get_or_def)

lemma demo_oid: "oid_str 7 = ''000000000000000000000007''"
  by (simp add: eval_text)

lemma demo_stamp: "isoformat (now demo_env 0) = ''2025-10-20T09:30:00.123456''"
  by (simp add: demo_env_def eval_text)

theorem same_status_update_not_found_iff_witness:
  "find (matches [(''timesheet_id'', VStr ''TS-202510-148'')]) (colls demo_store TIMESHEETS)
     = Some demo_sheet
   \<and> map_of demo_sheet ''status'' = Some (VStr ''draft'')
   \<and> (\<exists>r. fst (update_timesheet_status demo_env demo_store (VStr ''TS-202510-148'')
                 (VStr ''draft'')) = Inr (Some r)
          \<and> map_of r ''status'' = Some (VStr ''draft'')
          \<and> map_of r ''updated_at'' = Some (VStr ''2025-10-20T09:30:00.123456'')
          \<and> map_of r ''_id'' = Some (VStr ''000000000000000000000007'')
          \<and> map_of r ''total_hours'' = Some (VFloat (Fin 40)))
   \<and> find (matches [(''invoice_number'', VStr ''INV-202511-186'')]) (colls demo_store INVOICES)
     = Some demo_invoice
   \<and> map_of demo_invoice ''status'' = Some (VStr ''sent'')
   \<and> (\<exists>r. fst (update_invoice_status demo_env demo_store (VStr ''INV-202511-186'')
                 (VStr ''sent'')) = Inr (Some r)
          \<and> map_of r ''status'' = Some (VStr ''sent'')
          \<and> map_of r ''updated_at'' = Some (VStr ''2025-10-20T09:30:00.123456'')
          \<and> map_of r ''invoice_number'' = Some (VStr ''INV-202511-186''))"
proof -
  have s: "map_of demo_sheet ''status'' = Some (VStr ''draft'')"
    "map_of demo_sheet ''updated_at'' \<noteq> Some (VStr (isoformat (now demo_env 0)))"
    "map_of demo_sheet ''_id'' = Some (VOid 7)"
    "map_of demo_sheet ''total_hours'' = Some (VFloat (Fin 40))"
    by (simp_all add: demo_sheet_def demo_stamp)
  have i: "map_of demo_invoice ''status'' = Some (VStr ''sent'')"
    "map_of demo_invoice ''updated_at'' \<noteq> Some (VStr (isoformat (now demo_env 0)))"
    "map_of demo_invoice ''invoice_number'' = Some (VStr ''INV-202511-186'')"
    by (simp_all add: demo_invoice_def demo_stamp)
  note inst = same_status_update_not_found_iff
    [where timesheet_id = "VStr ''TS-202510-148''" and st = demo_store and d = demo_sheet
       and status = "VStr ''draft''" and e = demo_env
       and invoice_number = "VStr ''INV-202511-186''" and i = demo_invoice
       and istatus = "VStr ''sent''"]
  from inst demo_find_sheet s(1,2) demo_accepts
  obtain r where r: "fst (update_timesheet_status demo_env demo_store (VStr ''TS-202510-148'')
                       (VStr ''draft'')) = Inr (Some r)"
      "map_of r ''status'' = Some (VStr ''draft'')"
      "map_of r ''updated_at'' = Some (VStr (isoformat (now demo_env 0)))"
      "map_of r ''_id'' = map_option (str_id demo_env) (map_of demo_sheet ''_id'')"
      "\<forall>k. k \<notin> {''status'', ''updated_at'', ''_id''} \<longrightarrow> map_of r k = map_of demo_sheet k"
    by auto
  from r(5) s(4) have r5: "map_of r ''total_hours'' = Some (VFloat (Fin 40))" by simp
  from r(4) s(3) have r4: "map_of r ''_id'' = Some (VStr ''000000000000000000000007'')"
    by (simp add: str_id_def demo_oid)
  from inst demo_find_invoice i(1,2) demo_accepts
  obtain q where q: "fst (update_invoice_status demo_env demo_store (VStr ''INV-202511-186'')
                       (VStr ''sent'')) = Inr (Some q)"
      "map_of q ''status'' = Some (VStr ''sent'')"
      "map_of q ''updated_at'' = Some (VStr (isoformat (now demo_env 0)))"
      "\<forall>k. k \<notin> {''status'', ''updated_at'', ''_id''} \<longrightarrow> map_of q k = map_of demo_invoice k"
    by auto
  from q(4) i(3) have q4: "map_of q ''invoice_number'' = Some (VStr ''INV-202511-186'')"
    by simp
  from r(1,2) r(3) [unfolded demo_stamp] r4 r5 q(1,2) q(3) [unfolded demo_stamp] q4
       demo_find_sheet demo_find_invoice s(1) i(1)
  show ?thesis by blast
qed

text \<open>
  C10 as written fails on the timesheet of the example store: it is in status \<open>draft\<close>,
  a status update to \<open>draft\<close> raises nothing and returns the record, with the new
  \<open>updated_at\<close>. The update always writes the time stamp as well, so the store reports
  the document as modified.
\<close>

theorem same_status_update_counterexample:
  "find (matches [(''timesheet_id'', VStr ''TS-202510-148'')]) (colls demo_store TIMESHEETS)
     = Some demo_sheet
   \<and> map_of demo_sheet ''status'' = Some (VStr ''draft'')
   \<and> fst (update_timesheet_status demo_env demo_store (VStr ''TS-202510-148'') (VStr ''draft''))
     = Inr (Some (AList.update ''_id'' (VStr ''000000000000000000000007'')
                    (AList.update ''updated_at'' (VStr ''2025-10-20T09:30:00.123456'')
                       demo_sheet)))"
proof -
  have "fst (update_timesheet_status demo_env demo_store (VStr ''TS-202510-148'') (VStr ''draft''))
     = Inr (Some (AList.update ''_id'' (VStr ''000000000000000000000007'')
                    (AList.update ''updated_at'' (VStr ''2025-10-20T09:30:00.123456'')
                       demo_sheet)))"
    by (simp add: update_timesheet_status_found [OF demo_find_sheet _ demo_accepts] demo_stamp)
       (simp add: stringify_id_def str_id_def apply_set_def demo_sheet_def get_def get_or_def
          demo_oid)
  moreover have "map_of demo_sheet ''status'' = Some (VStr ''draft'')"
    by (simp add: demo_sheet_def)
  ultimately show ?thesis using demo_find_sheet by blast
qed
section \<open>Properties of the generated identifiers\<close>




















section \<open>Properties of the orchestrator\<close>

text \<open>
  C4. When the entity mapping has an \<open>expense_id\<close> and neither \<open>timesheet_id\<close> nor
  \<open>talent_id\<close> nor \<open>user_id\<close> (absent, or present with a false value), \<open>_create_invoice\<close>
  raises the validation failure and returns the store as it was given, its log of
  operations included: nothing has been read or written.
\<close>

theorem expense_invoice_needs_talent:
  assumes "truthy (get entities ''expense_id'')"
    and "\<not> truthy (get entities ''timesheet_id'')"
    and "\<not> truthy (get entities ''talent_id'')"
    and "\<not> truthy (get entities ''user_id'')"
  shows "create_invoice e st entities
           = (Inl (ValueError ''talent_id required for expense invoice''), st)"
  using assms by (simp add: create_invoice_def Let_def py_or_def)

theorem expense_invoice_needs_talent_witness:
  "truthy (get [(''expense_id'', VStr ''6479b09b-07f3-433c-aaae-ddc9b9b8f21d'')] ''expense_id'')
   \<and> \<not> truthy (get [(''expense_id'', VStr ''6479b09b-07f3-433c-aaae-ddc9b9b8f21d'')]
                 ''timesheet_id'')
   \<and> create_invoice demo_env empty_store
         [(''expense_id'', VStr ''6479b09b-07f3-433c-aaae-ddc9b9b8f21d'')]
       = (Inl (ValueError ''talent_id required for expense invoice''), empty_store)"
proof -
  have h: "truthy (get [(''expense_id'', VStr ''6479b09b-07f3-433c-aaae-ddc9b9b8f21d'')]
                      ''expense_id'')"
    "\<not> truthy (get [(''expense_id'', VStr ''6479b09b-07f3-433c-aaae-ddc9b9b8f21d'')]
                  ''timesheet_id'')"
    "\<not> truthy (get [(''expense_id'', VStr ''6479b09b-07f3-433c-aaae-ddc9b9b8f21d'')]
                  ''talent_id'')"
    "\<not> truthy (get [(''expense_id'', VStr ''6479b09b-07f3-433c-aaae-ddc9b9b8f21d'')]
                  ''user_id'')"
    by (simp_all add: get_def get_or_def)
  from expense_invoice_needs_talent [OF h, of demo_env empty_store] h(1,2)
  show ?thesis by blast
qed

lemma get_update_other: "k \<noteq> k' \<Longrightarrow> get (AList.update k' v d) k = get d k"
  by (simp add: get_def get_or_update_other)

lemma map_update_first:
  "(\<And>d. f (g d) = f d) \<Longrightarrow> map f (update_first P g ds) = map f ds"
  by (induction ds) auto

lemma update_first_split:
  "find P xs = Some d \<Longrightarrow>
     \<exists>pre post. xs = pre @ d # post \<and> (\<forall>x\<in>set pre. \<not> P x)
               \<and> update_first P g xs = pre @ g d # post"
proof (induction xs)
  case Nil
  then show ?case by simp
next
  case (Cons x xs)
  show ?case
  proof (cases "P x")
    case True
    with Cons.prems have "x = d" by simp
    with True have "x # xs = [] @ d # xs \<and> (\<forall>y\<in>set []. \<not> P y)
                    \<and> update_first P g (x # xs) = [] @ g d # xs"
      by simp
    then show ?thesis by blast
  next
    case False
    with Cons.prems have "find P xs = Some d" by simp
    from Cons.IH [OF this] obtain pre post where
      "xs = pre @ d # post" "\<forall>y\<in>set pre. \<not> P y" "update_first P g xs = pre @ g d # post"
      by blast
    with False have "x # xs = (x # pre) @ d # post \<and> (\<forall>y\<in>set (x # pre). \<not> P y)
                    \<and> update_first P g (x # xs) = (x # pre) @ g d # post"
      by simp
    then show ?thesis by blast
  qed
qed

lemma date_fields_status_set:
  "date_fields (apply_set [(''status'', s), (''updated_at'', u)] d) = date_fields d"
  by (simp add: date_fields_def apply_set_def get_update_other)

lemma find_one_colls: "colls (snd (find_one e st c flt)) = colls st"
  by (simp add: find_one_def split: option.splits)

lemma get_timesheet_colls: "colls (snd (get_timesheet e st timesheet_id)) = colls st"
proof -
  have "snd (get_timesheet e st timesheet_id)
          = snd (find_one e st TIMESHEETS [(''timesheet_id'', timesheet_id)])"
    by (simp add: get_timesheet_def split: prod.splits sum.splits)
  then show ?thesis by (simp add: find_one_colls)
qed

lemma update_one_status_colls:
  "map date_fields
     (colls (snd (update_one e st TIMESHEETS flt [(''status'', s), (''updated_at'', u)]))
        TIMESHEETS)
     = map date_fields (colls st TIMESHEETS)"
  by (simp add: update_one_def Let_def map_update_first date_fields_status_set
      split: option.splits)

lemma update_timesheet_status_colls:
  "map date_fields (colls (snd (update_timesheet_status e st timesheet_id status)) TIMESHEETS)
     = map date_fields (colls st TIMESHEETS)"
proof (cases "status \<in> set [VStr ''draft'', VStr ''submitted'', VStr ''approved'',
                              VStr ''rejected'']")
  case False
  then show ?thesis by (simp add: update_timesheet_status_def)
next
  case True
  let ?u = "update_one e st TIMESHEETS [(''timesheet_id'', timesheet_id)]
              [(''status'', status), (''updated_at'', VStr (isoformat (now e 0)))]"
  have u: "map date_fields (colls (snd ?u) TIMESHEETS) = map date_fields (colls st TIMESHEETS)"
    by (rule update_one_status_colls)
  have "colls (snd (update_timesheet_status e st timesheet_id status)) = colls (snd ?u)"
  proof (cases ?u)
    case (Pair res st1)
    show ?thesis
    proof (cases res)
      case (Inl err)
      with Pair True show ?thesis by (simp add: update_timesheet_status_def)
    next
      case (Inr n)
      with Pair True show ?thesis
        by (simp add: update_timesheet_status_def get_timesheet_colls)
    qed
  qed
  with u show ?thesis by simp
qed

text \<open>
  The status update of a timesheet that the filter finds and that does not hold the
  status and the time stamp already: the record returned and the store the call leaves.
\<close>

lemma update_timesheet_status_changed:
  assumes f: "find (matches [(''timesheet_id'', timesheet_id)]) (colls st TIMESHEETS) = Some d"
    and v: "status \<in> {VStr ''draft'', VStr ''submitted'', VStr ''approved'', VStr ''rejected''}"
    and acc: "\<forall>x. refuses e x = None"
    and n: "\<not> (map_of d ''status'' = Some status
               \<and> map_of d ''updated_at'' = Some (VStr (isoformat (now e 0))))"
  shows "update_timesheet_status e st timesheet_id status
         = (Inr (stringify_id e
                   (Some (AList.update ''updated_at'' (VStr (isoformat (now e 0)))
                            (AList.update ''status'' status d)))),
            st\<lparr>colls := (colls st)(TIMESHEETS :=
                   update_first (matches [(''timesheet_id'', timesheet_id)])
                     (apply_set [(''status'', status),
                                 (''updated_at'', VStr (isoformat (now e 0)))])
                     (colls st TIMESHEETS)),
               log := log st @
                 [UpdateOne TIMESHEETS [(''timesheet_id'', timesheet_id)]
                    [(''status'', status), (''updated_at'', VStr (isoformat (now e 0)))],
                  FindOne TIMESHEETS [(''timesheet_id'', timesheet_id)]]\<rparr>)"
proof -
  have a: "apply_set [(''status'', status), (''updated_at'', VStr (isoformat (now e 0)))] d
           = AList.update ''updated_at'' (VStr (isoformat (now e 0)))
               (AList.update ''status'' status d)"
    by (simp add: apply_set_def)
  show ?thesis
    using v acc n status_update_found [OF f, of status "isoformat (now e 0)"]
    by (simp add: update_timesheet_status_def status_update_count [OF f acc]
        get_timesheet_def find_one_def a)
qed

text \<open>
  C3. Let the entity mapping of an update request hold a \<open>timesheet_id\<close> and a status,
  whatever else it holds, a date range included.
  \<^item> The status transition is applied. When the timesheet exists, the status is a valid
    one, the driver accepts the documents and the record does not already hold that
    status with the time stamp of the update, the store afterwards holds, in the place
    of the record, the record with the requested status and the new \<open>updated_at\<close>, and
    nothing else in the store has changed; the only operations on the store are that
    \<open>$set\<close> of the status and the time stamp and the read of the record, which
    \<open>_update_timesheet\<close> returns as the data of an \<open>update_timesheet_status\<close> result.
  \<^item> The date range is not regenerated: whether the call returns or raises, the start
    date, the end date, the entries and the total hours of every stored timesheet stay
    as they were.
  \<^item> The outcome does not depend on the other fields of the mapping, the dates among
    them.
\<close>

theorem status_takes_priority:
  assumes "truthy (get entities ''timesheet_id'')" and "truthy (get entities ''status'')"
  shows "(\<forall>d. find (matches [(''timesheet_id'', get entities ''timesheet_id'')])
               (colls st TIMESHEETS) = Some d
             \<and> get entities ''status''
                 \<in> {VStr ''draft'', VStr ''submitted'', VStr ''approved'', VStr ''rejected''}
             \<and> (\<forall>x. refuses e x = None)
             \<and> \<not> (map_of d ''status'' = Some (get entities ''status'')
                    \<and> map_of d ''updated_at'' = Some (VStr (isoformat (now e 0))))
           \<longrightarrow> (\<exists>pre post r.
                   colls st TIMESHEETS = pre @ d # post
                 \<and> (\<forall>x\<in>set pre. \<not> matches [(''timesheet_id'', get entities ''timesheet_id'')] x)
                 \<and> colls (snd (update_timesheet e st entities)) TIMESHEETS
                     = pre @ AList.update ''updated_at'' (VStr (isoformat (now e 0)))
                               (AList.update ''status'' (get entities ''status'') d) # post
                 \<and> (\<forall>c. c \<noteq> TIMESHEETS \<longrightarrow>
                        colls (snd (update_timesheet e st entities)) c = colls st c)
                 \<and> log (snd (update_timesheet e st entities))
                     = log st @
                       [UpdateOne TIMESHEETS [(''timesheet_id'', get entities ''timesheet_id'')]
                          [(''status'', get entities ''status''),
                           (''updated_at'', VStr (isoformat (now e 0)))],
                        FindOne TIMESHEETS [(''timesheet_id'', get entities ''timesheet_id'')]]
                 \<and> fst (update_timesheet e st entities)
                     = Inr [(''operation'', VStr ''update_timesheet_status''),
                            (''data'', VDoc r),
                            (''message'',
                               VStr (''Updated timesheet ''
                                     @ py_str e (get entities ''timesheet_id'')
                                     @ '' status to '' @ py_str e (get entities ''status'')))]
                 \<and> map_of r
                     = (map_of d)(''status'' \<mapsto> get entities ''status'',
                                  ''updated_at'' \<mapsto> VStr (isoformat (now e 0)),
                                  ''_id'' := map_option (str_id e) (map_of d ''_id''))))
       \<and> map date_fields (colls (snd (update_timesheet e st entities)) TIMESHEETS)
           = map date_fields (colls st TIMESHEETS)
       \<and> (\<forall>entities'.
             get entities' ''timesheet_id'' = get entities ''timesheet_id'' \<and>
             get entities' ''status'' = get entities ''status'' \<longrightarrow>
             update_timesheet e st entities' = update_timesheet e st entities)"
proof (intro conjI allI impI)
  let ?id = "get entities ''timesheet_id''"
  let ?status = "get entities ''status''"
  let ?flt = "[(''timesheet_id'', ?id)]"
  let ?stamp = "VStr (isoformat (now e 0))"
  have eq: "update_timesheet e st entities =
           (case update_timesheet_status e st ?id ?status of
              (Inl err, st1) \<Rightarrow> (Inl err, st1)
            | (Inr timesheet, st1) \<Rightarrow>
                (Inr [(''operation'', VStr ''update_timesheet_status''),
                      (''data'', val_of_doc timesheet),
                      (''message'',
                         VStr (''Updated timesheet '' @ py_str e ?id
                               @ '' status to '' @ py_str e ?status))], st1))"
    using assms by (simp add: update_timesheet_def Let_def)
  have sn: "snd (update_timesheet e st entities) = snd (update_timesheet_status e st ?id ?status)"
    unfolding eq by (simp split: prod.splits sum.splits)
  show "map date_fields (colls (snd (update_timesheet e st entities)) TIMESHEETS)
          = map date_fields (colls st TIMESHEETS)"
    unfolding sn by (rule update_timesheet_status_colls)
  show "update_timesheet e st entities' = update_timesheet e st entities"
    if "get entities' ''timesheet_id'' = ?id \<and> get entities' ''status'' = ?status"
    for entities'
    using that assms by (simp add: update_timesheet_def Let_def)
  fix d
  assume h: "find (matches ?flt) (colls st TIMESHEETS) = Some d
             \<and> ?status \<in> {VStr ''draft'', VStr ''submitted'', VStr ''approved'', VStr ''rejected''}
             \<and> (\<forall>x. refuses e x = None)
             \<and> \<not> (map_of d ''status'' = Some ?status \<and> map_of d ''updated_at'' = Some ?stamp)"
  then have f: "find (matches ?flt) (colls st TIMESHEETS) = Some d"
    and v: "?status \<in> {VStr ''draft'', VStr ''submitted'', VStr ''approved'', VStr ''rejected''}"
    and acc: "\<forall>x. refuses e x = None"
    and n: "\<not> (map_of d ''status'' = Some ?status \<and> map_of d ''updated_at'' = Some ?stamp)"
    by blast+
  let ?d' = "AList.update ''updated_at'' ?stamp (AList.update ''status'' ?status d)"
  note ch = update_timesheet_status_changed [OF f v acc n]
  obtain r where r: "stringify_id e (Some ?d') = Some r"
    using stringify_id_ex by blast
  have a: "apply_set [(''status'', ?status), (''updated_at'', ?stamp)] d = ?d'"
    by (simp add: apply_set_def)
  from update_first_split [OF f, of "apply_set [(''status'', ?status), (''updated_at'', ?stamp)]"]
  obtain pre post where sp: "colls st TIMESHEETS = pre @ d # post"
    "\<forall>x\<in>set pre. \<not> matches ?flt x"
    "update_first (matches ?flt) (apply_set [(''status'', ?status), (''updated_at'', ?stamp)])
       (colls st TIMESHEETS) = pre @ ?d' # post"
    unfolding a by blast
  have c1: "colls (snd (update_timesheet e st entities)) TIMESHEETS = pre @ ?d' # post"
    unfolding sn ch using sp(3) by simp
  have c2: "\<forall>c. c \<noteq> TIMESHEETS \<longrightarrow> colls (snd (update_timesheet e st entities)) c = colls st c"
    unfolding sn ch by simp
  have c3: "log (snd (update_timesheet e st entities))
              = log st @ [UpdateOne TIMESHEETS ?flt [(''status'', ?status), (''updated_at'', ?stamp)],
                          FindOne TIMESHEETS ?flt]"
    unfolding sn ch by simp
  have c4: "fst (update_timesheet e st entities)
              = Inr [(''operation'', VStr ''update_timesheet_status''),
                     (''data'', VDoc r),
                     (''message'',
                        VStr (''Updated timesheet '' @ py_str e ?id
                              @ '' status to '' @ py_str e ?status))]"
    unfolding eq ch by (simp add: r val_of_doc_def)
  have c5: "map_of r = (map_of d)(''status'' \<mapsto> ?status, ''updated_at'' \<mapsto> ?stamp,
                                  ''_id'' := map_option (str_id e) (map_of d ''_id''))"
  proof
    fix k
    show "map_of r k = ((map_of d)(''status'' \<mapsto> ?status, ''updated_at'' \<mapsto> ?stamp,
                                  ''_id'' := map_option (str_id e) (map_of d ''_id''))) k"
    proof (cases "k = ''_id''")
      case True
      then show ?thesis using stringify_id_id [OF r] by (simp add: update_conv')
    next
      case False
      then show ?thesis using stringify_id_map_of [OF r False] by (simp add: update_conv')
    qed
  qed
  from sp(1,2) c1 c2 c3 c4 c5
  show "\<exists>pre post r.
          colls st TIMESHEETS = pre @ d # post
        \<and> (\<forall>x\<in>set pre. \<not> matches ?flt x)
        \<and> colls (snd (update_timesheet e st entities)) TIMESHEETS = pre @ ?d' # post
        \<and> (\<forall>c. c \<noteq> TIMESHEETS \<longrightarrow> colls (snd (update_timesheet e st entities)) c = colls st c)
        \<and> log (snd (update_timesheet e st entities))
            = log st @ [UpdateOne TIMESHEETS ?flt
                          [(''status'', ?status), (''updated_at'', ?stamp)],
                        FindOne TIMESHEETS ?flt]
        \<and> fst (update_timesheet e st entities)
            = Inr [(''operation'', VStr ''update_timesheet_status''),
                   (''data'', VDoc r),
                   (''message'',
                      VStr (''Updated timesheet '' @ py_str e ?id
                            @ '' status to '' @ py_str e ?status))]
        \<and> map_of r = (map_of d)(''status'' \<mapsto> ?status, ''updated_at'' \<mapsto> ?stamp,
                                 ''_id'' := map_option (str_id e) (map_of d ''_id''))"
    by blast
qed

theorem status_takes_priority_witness:
  "truthy (get demo_update ''timesheet_id'') \<and> truthy (get demo_update ''status'')
   \<and> truthy (get demo_update ''start_date'') \<and> truthy (get demo_update ''end_date'')
   \<and> colls demo_store TIMESHEETS = [demo_sheet]
   \<and> map_of demo_sheet ''status'' = Some (VStr ''draft'')
   \<and> colls (snd (update_timesheet demo_env demo_store demo_update)) TIMESHEETS
       = [AList.update ''updated_at'' (VStr ''2025-10-20T09:30:00.123456'')
            (AList.update ''status'' (VStr ''submitted'') demo_sheet)]
   \<and> log (snd (update_timesheet demo_env demo_store demo_update))
       = [UpdateOne TIMESHEETS [(''timesheet_id'', VStr ''TS-202510-148'')]
            [(''status'', VStr ''submitted''),
             (''updated_at'', VStr ''2025-10-20T09:30:00.123456'')],
          FindOne TIMESHEETS [(''timesheet_id'', VStr ''TS-202510-148'')]]
   \<and> (\<exists>r. fst (update_timesheet demo_env demo_store demo_update)
             = Inr [(''operation'', VStr ''update_timesheet_status''),
                    (''data'', VDoc r),
                    (''message'', VStr ''Updated timesheet TS-202510-148 status to submitted'')]
          \<and> map_of r ''status'' = Some (VStr ''submitted'')
          \<and> map_of r ''start_date'' = Some (VStr ''2025-10-06'')
          \<and> map_of r ''end_date'' = Some (VStr ''2025-10-10''))
   \<and> map date_fields (colls (snd (update_timesheet demo_env demo_store demo_update)) TIMESHEETS)
       = [[VStr ''2025-10-06'', VStr ''2025-10-10'', VList [], VFloat (Fin 40)]]"
proof -
  have t: "truthy (get demo_update ''timesheet_id'')" "truthy (get demo_update ''status'')"
    "truthy (get demo_update ''start_date'')" "truthy (get demo_update ''end_date'')"
    by (simp_all add: demo_update_def get_def get_or_def)
  have g: "get demo_update ''timesheet_id'' = VStr ''TS-202510-148''"
    "get demo_update ''status'' = VStr ''submitted''"
    by (simp_all add: demo_update_def get_def get_or_def)
  have c: "colls demo_store TIMESHEETS = [demo_sheet]" "log demo_store = []"
    by (simp_all add: demo_store_def)
  have s: "map_of demo_sheet ''status'' = Some (VStr ''draft'')"
    "map_of demo_sheet ''start_date'' = Some (VStr ''2025-10-06'')"
    "map_of demo_sheet ''end_date'' = Some (VStr ''2025-10-10'')"
    by (simp_all add: demo_sheet_def)
  have d: "map date_fields (colls demo_store TIMESHEETS)
             = [[VStr ''2025-10-06'', VStr ''2025-10-10'', VList [], VFloat (Fin 40)]]"
    by (simp add: demo_store_def demo_sheet_def date_fields_def get_def get_or_def)
  note p = status_takes_priority [OF t(1,2), of demo_store demo_env, unfolded g demo_stamp]
  have "find (matches [(''timesheet_id'', VStr ''TS-202510-148'')]) (colls demo_store TIMESHEETS)
          = Some demo_sheet
        \<and> VStr ''submitted''
            \<in> {VStr ''draft'', VStr ''submitted'', VStr ''approved'', VStr ''rejected''}
        \<and> (\<forall>x. refuses demo_env x = None)
        \<and> \<not> (map_of demo_sheet ''status'' = Some (VStr ''submitted'')
               \<and> map_of demo_sheet ''updated_at'' = Some (VStr ''2025-10-20T09:30:00.123456''))"
    using demo_find_sheet demo_accepts s(1) by simp
  with p [THEN conjunct1] obtain pre post r where
    a: "colls demo_store TIMESHEETS = pre @ demo_sheet # post"
    and b: "colls (snd (update_timesheet demo_env demo_store demo_update)) TIMESHEETS
          = pre @ AList.update ''updated_at'' (VStr ''2025-10-20T09:30:00.123456'')
                    (AList.update ''status'' (VStr ''submitted'') demo_sheet) # post"
    and l: "log (snd (update_timesheet demo_env demo_store demo_update))
          = log demo_store @
            [UpdateOne TIMESHEETS [(''timesheet_id'', VStr ''TS-202510-148'')]
               [(''status'', VStr ''submitted''),
                (''updated_at'', VStr ''2025-10-20T09:30:00.123456'')],
             FindOne TIMESHEETS [(''timesheet_id'', VStr ''TS-202510-148'')]]"
    and f: "fst (update_timesheet demo_env demo_store demo_update)
          = Inr [(''operation'', VStr ''update_timesheet_status''),
                 (''data'', VDoc r),
                 (''message'',
                    VStr (''Updated timesheet '' @ py_str demo_env (VStr ''TS-202510-148'')
                          @ '' status to '' @ py_str demo_env (VStr ''submitted'')))]"
    and m: "map_of r
          = (map_of demo_sheet)(''status'' \<mapsto> VStr ''submitted'',
               ''updated_at'' \<mapsto> VStr ''2025-10-20T09:30:00.123456'',
               ''_id'' := map_option (str_id demo_env) (map_of demo_sheet ''_id''))"
    by blast
  from a c(1) have pp: "pre = [] \<and> post = []"
    by (cases pre) simp_all
  from b pp have b': "colls (snd (update_timesheet demo_env demo_store demo_update)) TIMESHEETS
       = [AList.update ''updated_at'' (VStr ''2025-10-20T09:30:00.123456'')
            (AList.update ''status'' (VStr ''submitted'') demo_sheet)]"
    by simp
  from l c(2) have l': "log (snd (update_timesheet demo_env demo_store demo_update))
       = [UpdateOne TIMESHEETS [(''timesheet_id'', VStr ''TS-202510-148'')]
            [(''status'', VStr ''submitted''),
             (''updated_at'', VStr ''2025-10-20T09:30:00.123456'')],
          FindOne TIMESHEETS [(''timesheet_id'', VStr ''TS-202510-148'')]]"
    by simp
  from f have f': "fst (update_timesheet demo_env demo_store demo_update)
             = Inr [(''operation'', VStr ''update_timesheet_status''),
                    (''data'', VDoc r),
                    (''message'', VStr ''Updated timesheet TS-202510-148 status to submitted'')]"
    by (simp add: py_str_def)
  from m s have r: "map_of r ''status'' = Some (VStr ''submitted'')"
    "map_of r ''start_date'' = Some (VStr ''2025-10-06'')"
    "map_of r ''end_date'' = Some (VStr ''2025-10-10'')"
    by simp_all
  from p [THEN conjunct2, THEN conjunct1]
  have df: "map date_fields (colls (snd (update_timesheet demo_env demo_store demo_update))
          TIMESHEETS) = [[VStr ''2025-10-06'', VStr ''2025-10-10'', VList [], VFloat (Fin 40)]]"
    by (simp only: d)
  from t c(1) s(1) b' l' f' r df show ?thesis by blast
qed
section \<open>Properties of the date extraction\<close>

lemma map_of_update_same: "map_of (AList.update k v al) k = Some v"
  by (simp add: update_conv')

lemma map_of_update_other: "k' \<noteq> k \<Longrightarrow> map_of (AList.update k v al) k' = map_of al k'"
  by (simp add: update_conv')

lemma findall_date_shape: "m \<in> set (findall_date s) \<Longrightarrow> date_shape m"
  by (induction s rule: findall_date.induct) (auto split: if_splits)

text \<open>
  C6. When the text holds at least two matches of the explicit date pattern, the first
  is returned as \<open>start_date\<close> and the second as \<open>end_date\<close>, whatever the month-name pass
  has assigned; both have the shape \<open>YYYY-MM-DD\<close>.
\<close>

theorem explicit_dates_take_precedence:
  assumes "2 \<le> length (findall_date text)"
  shows "map_of (extract_dates current_year text) ''start_date'' = Some (findall_date text ! 0)
       \<and> map_of (extract_dates current_year text) ''end_date'' = Some (findall_date text ! 1)
       \<and> date_shape (findall_date text ! 0) \<and> date_shape (findall_date text ! 1)"
proof -
  from assms have ne: "findall_date text \<noteq> []" and l1: "1 \<le> length (findall_date text)"
    by auto
  have "date_shape (findall_date text ! 0)" "date_shape (findall_date text ! 1)"
    using assms by (auto intro!: findall_date_shape nth_mem)
  moreover have "map_of (extract_dates current_year text) ''start_date''
                   = Some (findall_date text ! 0)"
    using assms ne l1
    by (simp add: extract_dates_def Let_def map_of_update_same map_of_update_other)
  moreover have "map_of (extract_dates current_year text) ''end_date''
                   = Some (findall_date text ! 1)"
    using assms ne l1 by (simp add: extract_dates_def Let_def map_of_update_same)
  ultimately show ?thesis by simp
qed

theorem explicit_dates_take_precedence_witness:
  "month_hits ''Oct 1 2025-10-15 2025-11-07'' = [(10, 0, ''1'')]
   \<and> findall_date ''Oct 1 2025-10-15 2025-11-07'' = [''2025-10-15'', ''2025-11-07'']
   \<and> map_of (extract_dates 2026 ''Oct 1 2025-10-15 2025-11-07'') ''start_date''
       = Some ''2025-10-15''
   \<and> map_of (extract_dates 2026 ''Oct 1 2025-10-15 2025-11-07'') ''end_date''
       = Some ''2025-11-07''"
proof -
  have hits: "month_hits ''Oct 1 2025-10-15 2025-11-07'' = [(10, 0, ''1'')]"
    by code_simp
  have found: "findall_date ''Oct 1 2025-10-15 2025-11-07''
                 = [''2025-10-15'', ''2025-11-07'']"
    by code_simp
  have len: "2 \<le> length (findall_date ''Oct 1 2025-10-15 2025-11-07'')"
    unfolding found by simp
  have nths: "[''2025-10-15'', ''2025-11-07''] ! 0 = ''2025-10-15''"
             "[''2025-10-15'', ''2025-11-07''] ! 1 = ''2025-11-07''"
    by simp_all
  have "map_of (extract_dates 2026 ''Oct 1 2025-10-15 2025-11-07'') ''start_date''
          = Some ''2025-10-15''
      \<and> map_of (extract_dates 2026 ''Oct 1 2025-10-15 2025-11-07'') ''end_date''
          = Some ''2025-11-07''"
    using explicit_dates_take_precedence [OF len, of 2026] unfolding found nths by blast
  with hits found show ?thesis by (intro conjI) (erule conjunct1 conjunct2 | assumption)+
qed

text \<open>
  C7. On the text of the repository's own date test the month-name pass assigns twice
  to \<open>start_date\<close>: the word \<open>from\<close> precedes \<open>Nov 7\<close> as well as \<open>Oct 15\<close>, and the test
  for \<open>start\<close>/\<open>from\<close> comes first. The result holds November 7 as \<open>start_date\<close> and has
  no \<open>end_date\<close>, in every year.
\<close>

theorem extract_dates_oct_nov_loses_end_date:
  "extract_dates current_year ''Create timesheet from Oct 15 to Nov 7''
     = [(''start_date'', str_nat current_year @ ''-11-07'')]"
proof -
  have hits: "month_hits ''Create timesheet from Oct 15 to Nov 7''
                = [(10, 22, ''15''), (11, 32, ''7'')]"
    by code_simp
  have found: "findall_date ''Create timesheet from Oct 15 to Nov 7'' = []"
    by code_simp
  have low: "lower ''Create timesheet from Oct 15 to Nov 7''
               = ''create timesheet from oct 15 to nov 7''"
    by code_simp
  have from1: "contains ''from'' (take 22 ''create timesheet from oct 15 to nov 7'')"
    by code_simp
  have from2: "contains ''from'' (take 32 ''create timesheet from oct 15 to nov 7'')"
    by code_simp
  have pad: "zpad 2 (str_nat 11) = ''11''" "zpad 2 (str_nat (int_of_digits ''7'')) = ''07''"
    by code_simp+
  show ?thesis
    unfolding extract_dates_def hits found Let_def
    by (simp add: assign_month_date_def low from1 from2 pad Let_def)
qed

section \<open>Properties of the intent classifier\<close>

lemma Intent_of_None:
  "s \<notin> {''CREATE'', ''READ'', ''UPDATE'', ''DELETE'', ''QUERY''} \<Longrightarrow> Intent_of s = None"
  by (simp add: Intent_of_def)

lemma EntityType_of_None:
  "s \<notin> {''TIMESHEET'', ''INVOICE'', ''EXPENSE'', ''PROJECT'', ''TALENT''}
   \<Longrightarrow> EntityType_of s = None"
  by (simp add: EntityType_of_def)

lemma upper_eq_simps:
  "upper [] = []" "upper (c # cs) = upper_char c # upper cs"
  by (simp_all add: upper_def)

lemma upper_timesheet: "upper ''timesheet'' = ''TIMESHEET''"
  by (simp add: upper_def upper_char_def ascii_lower_def ascii_upper_def)

lemma upper_banana: "upper ''banana'' = ''BANANA''"
  by (simp add: upper_def upper_char_def ascii_lower_def ascii_upper_def)

text \<open>
  C5 (as amended). An \<open>intent\<close> string that is, once upper-cased, none of the five intent
  names classifies to \<open>QUERY\<close>, and an \<open>entity_type\<close> string that is, once upper-cased,
  none of the five entity type names gives no entity type; neither call raises.
\<close>

theorem classifier_defaults_on_unknown:
  "(map_of parsed_query ''intent'' = Some (VStr s) \<longrightarrow>
      upper s \<notin> {''CREATE'', ''READ'', ''UPDATE'', ''DELETE'', ''QUERY''} \<longrightarrow>
      classify parsed_query = Inr QUERY) \<and>
   (map_of parsed_query ''entity_type'' = Some (VStr t) \<longrightarrow>
      upper t \<notin> {''TIMESHEET'', ''INVOICE'', ''EXPENSE'', ''PROJECT'', ''TALENT''} \<longrightarrow>
      get_entity_type parsed_query = Inr None)"
proof (intro conjI impI)
  assume "map_of parsed_query ''intent'' = Some (VStr s)"
    and "upper s \<notin> {''CREATE'', ''READ'', ''UPDATE'', ''DELETE'', ''QUERY''}"
  then show "classify parsed_query = Inr QUERY"
    using Intent_of_None [of "upper s"] by (simp add: classify_def get_or_def)
next
  assume "map_of parsed_query ''entity_type'' = Some (VStr t)"
    and "upper t \<notin> {''TIMESHEET'', ''INVOICE'', ''EXPENSE'', ''PROJECT'', ''TALENT''}"
  then show "get_entity_type parsed_query = Inr None"
    using EntityType_of_None [of "upper t"]
    by (simp add: get_entity_type_def get_def get_or_def)
qed

theorem classifier_defaults_on_unknown_witness:
  "map_of [(''intent'', VStr ''banana''), (''entity_type'', VStr ''banana'')] ''intent''
     = Some (VStr ''banana'') \<and>
   map_of [(''intent'', VStr ''banana''), (''entity_type'', VStr ''banana'')] ''entity_type''
     = Some (VStr ''banana'') \<and>
   upper ''banana'' \<notin> {''CREATE'', ''READ'', ''UPDATE'', ''DELETE'', ''QUERY''} \<and>
   upper ''banana'' \<notin> {''TIMESHEET'', ''INVOICE'', ''EXPENSE'', ''PROJECT'', ''TALENT''} \<and>
   classify [(''intent'', VStr ''banana''), (''entity_type'', VStr ''banana'')] = Inr QUERY \<and>
   get_entity_type [(''intent'', VStr ''banana''), (''entity_type'', VStr ''banana'')] = Inr None"
  using classifier_defaults_on_unknown
    [of "[(''intent'', VStr ''banana''), (''entity_type'', VStr ''banana'')]" "''banana''"
        "''banana''"]
  by (simp add: upper_banana)

text \<open>
  C5 as written leaves the upper-casing out of its second half: the lower-case string
  \<open>timesheet\<close> is not one of the five names, and \<open>get_entity_type\<close> returns \<open>TIMESHEET\<close>
  for it.
\<close>

theorem entity_type_lower_case_counterexample:
  "''timesheet'' \<notin> {''TIMESHEET'', ''INVOICE'', ''EXPENSE'', ''PROJECT'', ''TALENT''} \<and>
   get_entity_type [(''entity_type'', VStr ''timesheet'')] = Inr (Some TIMESHEET)"
  by (simp add: get_entity_type_def get_def get_or_def upper_timesheet EntityType_of_def)

end

